theory Spec2Isabelle
  imports Main
begin

text \<open>
  A model of the question-answering assistant: the router that classifies a question, the
  workflow graph that dispatches it, the index cache of the document branch (fingerprint,
  descriptor, validity check, build) and the weather handler. Each Python function is a
  function from the outside it works in (\<open>world\<close>) and its arguments to its result, or the
  exception it raises, and the outside it leaves.
\<close>

section \<open>Python strings\<close>

text \<open>
  A Python \<open>str\<close> is modelled as a \<open>string\<close>; a character outside ASCII is kept as its
  UTF-8 bytes. \<open>lower\<close>, \<open>upper\<close>, \<open>title\<close> and \<open>strip\<close> act on the ASCII letters and
  the ASCII white space only, every other byte is left as it is.
\<close>

definition is_upper :: "char \<Rightarrow> bool" where
  "is_upper c = (65 \<le> (of_char c :: nat) \<and> (of_char c :: nat) \<le> 90)"

definition is_lower :: "char \<Rightarrow> bool" where
  "is_lower c = (97 \<le> (of_char c :: nat) \<and> (of_char c :: nat) \<le> 122)"

definition lower_char :: "char \<Rightarrow> char" where
  "lower_char c = (if is_upper c then char_of ((of_char c :: nat) + 32) else c)"

definition upper_char :: "char \<Rightarrow> char" where
  "upper_char c = (if is_lower c then char_of ((of_char c :: nat) - 32) else c)"

definition lower :: "string \<Rightarrow> string" where
  "lower s = map lower_char s"

definition upper :: "string \<Rightarrow> string" where
  "upper s = map upper_char s"

text \<open>\<open>str.title()\<close>: a letter that follows a letter is lowered, any other letter is raised.\<close>

fun title_from :: "bool \<Rightarrow> string \<Rightarrow> string" where
  "title_from prev [] = []"
| "title_from prev (c # cs) =
     (if is_upper c \<or> is_lower c
      then (if prev then lower_char c else upper_char c) # title_from True cs
      else c # title_from False cs)"

definition title :: "string \<Rightarrow> string" where
  "title s = title_from False s"

definition is_space :: "char \<Rightarrow> bool" where
  "is_space c = ((9 \<le> (of_char c :: nat) \<and> (of_char c :: nat) \<le> 13)
                 \<or> (28 \<le> (of_char c :: nat) \<and> (of_char c :: nat) \<le> 32))"

definition strip :: "string \<Rightarrow> string" where
  "strip s = rev (dropWhile is_space (rev (dropWhile is_space s)))"

text \<open>\<open>s.startswith(w)\<close> and the containment test \<open>w in s\<close>.\<close>

fun startswith :: "string \<Rightarrow> string \<Rightarrow> bool" where
  "startswith s [] = True"
| "startswith [] (c # w) = False"
| "startswith (a # s) (c # w) = (a = c \<and> startswith s w)"

fun str_in :: "string \<Rightarrow> string \<Rightarrow> bool" where
  "str_in w [] = (w = [])"
| "str_in w (a # s) = (startswith (a # s) w \<or> str_in w s)"

text \<open>\<open>sep.join(xs)\<close>.\<close>

fun join :: "string \<Rightarrow> string list \<Rightarrow> string" where
  "join sep [] = []"
| "join sep [x] = x"
| "join sep (x # y # ys) = x @ sep @ join sep (y # ys)"

text \<open>\<open>str(n)\<close> for an integer, as an f-string renders it.\<close>

definition digit_char :: "nat \<Rightarrow> char" where
  "digit_char d = char_of (48 + d)"

fun str_nat :: "nat \<Rightarrow> string" where
  "str_nat n = (if n < 10 then [digit_char n] else str_nat (n div 10) @ [digit_char (n mod 10)])"

declare str_nat.simps [simp del]

definition str_int :: "int \<Rightarrow> string" where
  "str_int i = (if i < 0 then CHR ''-'' # str_nat (nat (- i)) else str_nat (nat i))"

text \<open>\<open>str(x)\<close> of an optional string: \<open>None\<close> is rendered as the word None.\<close>

definition str_opt :: "string option \<Rightarrow> string" where
  "str_opt x = (case x of None \<Rightarrow> ''None'' | Some s \<Rightarrow> s)"

text \<open>Truth value of an optional string: \<open>None\<close> and the empty string are false.\<close>

definition truthy :: "string option \<Rightarrow> bool" where
  "truthy x = (case x of None \<Rightarrow> False | Some s \<Rightarrow> s \<noteq> [])"

section \<open>Errors\<close>

text \<open>Every exception that leaves a function of the program is a value of this type.\<close>

datatype error =
    FileNotFoundError
  | ValueError
  | JSONDecodeError
  | AttributeError
  | KeyError
  | TypeError
  | LoaderError
  | LLMError
  | EmbeddingError
  | BackendError

section \<open>Data\<close>

text \<open>A langchain \<open>Document\<close>: the text and its metadata.\<close>

record document =
  page_content :: string
  doc_metadata :: "(string \<times> string) list"

text \<open>
  The dictionary \<open>file_fingerprint\<close> builds (helper.py), which it also writes to and reads
  back from its cache file, and which \<open>get_index_metadata\<close> embeds in the descriptor.
\<close>

record fingerprint =
  sha256 :: string
  fp_size :: nat
  fp_mtime :: int
  quick_key :: string

text \<open>
  A document on disk: its bytes and the whole seconds of its modification time
  (\<open>int(stat.st_mtime)\<close>); \<open>st_size\<close> is the number of bytes.
\<close>

record doc_file =
  file_bytes :: string
  st_mtime :: int

text \<open>
  What \<open>json.loads(cache_file.read_text())\<close> finds in a fingerprint cache file: text that is
  not a JSON object with a \<open>quick_key\<close> (reading, parsing or \<open>.get\<close> raises, or \<open>.get\<close> gives
  \<open>None\<close>), or a fingerprint dictionary.
\<close>

datatype cache_file = CacheUnusable | CacheDict fingerprint

text \<open>
  The descriptor \<open>meta.json\<close>, as \<open>saved_meta.get\<close> reads it: a key that is absent reads as
  \<open>None\<close>.
\<close>

record descriptor =
  d_pdf_fingerprint :: "fingerprint option"
  d_chunk_size :: "int option"
  d_chunk_overlap :: "int option"
  d_embedding_model :: "string option"
  d_format :: "string option"
  d_collection_name :: "string option"

text \<open>
  The content of an existing \<open>meta.json\<close>: text that \<open>json.loads\<close> rejects, a JSON value
  that Python counts as false (\<open>null\<close>, \<open>{}\<close>, \<open>[]\<close>, \<open>0\<close>, the empty string), a true value
  that is no object (\<open>.get\<close> raises on it), or a non-empty object.
\<close>

datatype meta_file = MetaInvalid | MetaFalsy | MetaNoDict | MetaDict descriptor

text \<open>The handle \<open>Qdrant(client, collection_name, embeddings)\<close>.\<close>

record qdrant =
  vs_persist_dir :: string
  vs_collection :: string
  vs_embed_model :: string

text \<open>
  The JSON body of the weather provider, by the places the program reads. A field is
  \<open>None\<close> where the subscript raises (\<open>weather_data["main"]["temp"]\<close> and so on); numbers are
  kept as the text an f-string renders.
\<close>

record payload =
  p_temp :: "string option"
  p_feels_like :: "string option"
  p_humidity :: "string option"
  p_description :: "string option"
  p_wind_speed :: "string option"

text \<open>
  A value of \<open>response.json()\<close>: one that Python counts as false (such as \<open>{}\<close>), or a
  non-empty body. The response carries \<open>None\<close> where \<open>response.json()\<close> raises.
\<close>

datatype body = BodyFalsy | BodyJson payload

datatype http_response = ConnectionFailed | Response nat "body option"

text \<open>The dictionary \<open>json.loads\<close> gives for the extractor's answer.\<close>

record location =
  loc_city :: "string option"
  loc_state :: "string option"

text \<open>
  The extractor's raw answer: no JSON (\<open>json.loads\<close> raises), a JSON value that is no
  object, or an object.
\<close>

datatype extraction = ExtractNoJson | ExtractNoDict | ExtractDict location

text \<open>The prompts sent to the chat model, by template, with the values filled in.\<close>

datatype prompt =
    SummarizeChunk string
  | CombineSummaries string
  | MergeContexts string
  | Classify string string
  | ExtractLocation string
  | AnswerFromContext string string

text \<open>The nodes of the workflow graph (integrated\_workflow.py).\<close>

datatype node =
    Router | Weather | Unknown | CheckCache | LoadPdf | SplitDocs | BuildIndex | LoadIndex
  | Retrieve | Generate | END

text \<open>The operations of the index backend (the Qdrant client).\<close>

datatype backend_op = OpDelete | OpCreate | OpAdd | OpList | OpSearch

text \<open>What the program did to the outside, in order: the trace kept by the model.\<close>

datatype event =
    EvNode node
  | EvLLM prompt
  | EvLoad string
  | EvEmbed string
  | EvBackend backend_op string string
  | EvHttpGet string

section \<open>The outside\<close>

text \<open>
  Everything the program reads or changes outside its arguments: the file system, the
  process-wide caches of helper.py, the index backend, the collaborators (loader, splitter,
  chat model, embeddings, search, weather provider), the library hash functions and the
  configured API key. A collaborator is a function of its arguments that may fail; the
  trace \<open>events\<close> records each call.
\<close>

record world =
  doc_files :: "string \<rightharpoonup> doc_file"
  fp_cache_files :: "string \<rightharpoonup> cache_file"
  cache_writable :: bool
  dirs :: "string set"
  meta_files :: "string \<rightharpoonup> meta_file"
  pdf_folders :: "string \<rightharpoonup> string list"
  client_cache :: "string set"
  vectorstore_cache :: "string \<rightharpoonup> qdrant"
  pdf_context_cache :: "string \<rightharpoonup> string"
  collections :: "string \<Rightarrow> string \<rightharpoonup> document list"
  backend_fails :: "backend_op \<Rightarrow> bool"
  loader :: "string \<Rightarrow> error + document list"
  splitter :: "int \<Rightarrow> int \<Rightarrow> document list \<Rightarrow> error + document list"
  llm :: "prompt \<Rightarrow> error + string"
  json_loads_location :: "string \<Rightarrow> extraction"
  embed_query :: "string \<Rightarrow> string \<Rightarrow> error + nat"
  search :: "document list \<Rightarrow> string \<Rightarrow> int \<Rightarrow> document list"
  http_get :: "string \<Rightarrow> http_response"
  sha256_hex :: "string \<Rightarrow> string"
  md5_hex :: "string \<Rightarrow> string"
  openweather_api_key :: "string option"
  events :: "event list"

type_synonym 'a result = "(error + 'a) \<times> world"

definition emit :: "event \<Rightarrow> world \<Rightarrow> world" where
  "emit e w = w\<lparr>events := events w @ [e]\<rparr>"

text \<open>Sequencing: an exception of the first step ends the function.\<close>

definition then_do :: "'a result \<Rightarrow> ('a \<Rightarrow> world \<Rightarrow> 'b result) \<Rightarrow> 'b result" where
  "then_do m f = (case m of (Inl e, w) \<Rightarrow> (Inl e, w) | (Inr x, w) \<Rightarrow> f x w)"

text \<open>A call of the chat model with a rendered prompt.\<close>

definition invoke :: "world \<Rightarrow> prompt \<Rightarrow> string result" where
  "invoke w p = (llm w p, emit (EvLLM p) w)"

section \<open>config.py\<close>

definition INDEX_ROOT :: string where
  "INDEX_ROOT = ''.indices''"

definition LLM_MODEL :: string where
  "LLM_MODEL = ''gpt-4o-mini''"

definition EMBEDDING_MODEL :: string where
  "EMBEDDING_MODEL = ''text-embedding-3-small''"

definition DEFAULT_CHUNK_SIZE :: int where
  "DEFAULT_CHUNK_SIZE = 1000"

definition DEFAULT_CHUNK_OVERLAP :: int where
  "DEFAULT_CHUNK_OVERLAP = 150"

definition DEFAULT_K :: int where
  "DEFAULT_K = 4"

section \<open>helper.py: document context\<close>

definition load_pdf :: "world \<Rightarrow> string \<Rightarrow> document list result" where
  "load_pdf w path = (loader w path, emit (EvLoad path) w)"

definition split_documents :: "world \<Rightarrow> document list \<Rightarrow> int \<Rightarrow> int \<Rightarrow> document list result" where
  "split_documents w docs chunk_size chunk_overlap = (splitter w chunk_size chunk_overlap docs, w)"

text \<open>
  The loop of \<open>extract_pdf_context\<close> over the first ten chunks: a chunk whose stripped
  text is shorter than 100 characters is skipped, and so is one whose summary fails.
\<close>

fun summarize_chunks :: "world \<Rightarrow> document list \<Rightarrow> string list \<times> world" where
  "summarize_chunks w [] = ([], w)"
| "summarize_chunks w (chunk # rest) =
     (let text = strip (page_content chunk) in
      if text = [] \<or> length text < 100 then summarize_chunks w rest
      else (case invoke w (SummarizeChunk text) of
              (Inr summary, w1) \<Rightarrow>
                (case summarize_chunks w1 rest of (ss, w2) \<Rightarrow> (summary # ss, w2))
            | (Inl e, w1) \<Rightarrow> summarize_chunks w1 rest))"

definition extract_pdf_context :: "world \<Rightarrow> string \<Rightarrow> string \<Rightarrow> string result" where
  "extract_pdf_context w pdf_path model_name =
     (let cache_key = pdf_path @ '':'' @ model_name in
      case pdf_context_cache w cache_key of
        Some cached \<Rightarrow> (Inr cached, w)
      | None \<Rightarrow>
          then_do (load_pdf w pdf_path) (\<lambda>docs w1.
          then_do (split_documents w1 docs 2000 200) (\<lambda>chunks w2.
            case summarize_chunks w2 (take (min 10 (length chunks)) chunks) of
              (all_summaries, w3) \<Rightarrow>
                if all_summaries = []
                then (Inr ''Unable to extract meaningful context from the PDF.'', w3)
                else (let combined_text = join [CHR 0x0A, CHR 0x0A] all_summaries in
                      case invoke w3 (CombineSummaries combined_text) of
                        (Inr final_summary, w4) \<Rightarrow>
                          (Inr (strip final_summary),
                           w4\<lparr>pdf_context_cache :=
                                (pdf_context_cache w4)(cache_key \<mapsto> strip final_summary)\<rparr>)
                      | (Inl e, w4) \<Rightarrow> (Inr (take 1000 combined_text), w4)))))"

text \<open>The loop of \<open>extract_all_pdf_contexts\<close> over the PDF files of the folder.\<close>

fun summarize_pdfs :: "world \<Rightarrow> string \<Rightarrow> string \<Rightarrow> string list \<Rightarrow> string list result" where
  "summarize_pdfs w folder model_name [] = (Inr [], w)"
| "summarize_pdfs w folder model_name (name # rest) =
     then_do (extract_pdf_context w (folder @ ''/'' @ name) model_name) (\<lambda>summary w1.
     then_do (summarize_pdfs w1 folder model_name rest) (\<lambda>ss w2.
       (Inr (([CHR 0xC3, CHR 0xB0, CHR 0xC5, CHR 0xB8, CHR 0xE2, CHR 0x80, CHR 0x9C,
               CHR 0xE2, CHR 0x80, CHR 0x9E] @ '' '' @ name @ [CHR 0x0A] @ summary
              @ [CHR 0x0A]) # ss), w2)))"

definition extract_all_pdf_contexts :: "world \<Rightarrow> string \<Rightarrow> string \<Rightarrow> string result" where
  "extract_all_pdf_contexts w folder_path model_name =
     (case pdf_folders w folder_path of
        None \<Rightarrow> (Inl FileNotFoundError, w)
      | Some pdf_files \<Rightarrow>
          if pdf_files = [] then (Inl ValueError, w)
          else then_do (summarize_pdfs w folder_path model_name pdf_files) (\<lambda>all_summaries w1.
               then_do (invoke w1 (MergeContexts (join [CHR 0x0A] all_summaries)))
                 (\<lambda>final_context w2. (Inr (strip final_context), w2))))"

section \<open>agent\_router.py\<close>

definition weather_keywords :: "string list" where
  "weather_keywords =
     [''weather'', ''temperature'', ''rain'', ''climate'', ''humidity'', ''forecast'']"

definition route_to_agent :: "world \<Rightarrow> string \<Rightarrow> bool \<Rightarrow> string result" where
  "route_to_agent w question pdf_available =
     (if list_ex (\<lambda>word. str_in word (lower question)) weather_keywords
      then (Inr ''weather'', w)
      else then_do (if pdf_available then extract_all_pdf_contexts w ''uploaded_pdfs'' LLM_MODEL
                    else (Inr [], w)) (\<lambda>pdf_context w1.
             if pdf_context = [] then (Inr ''unknown'', w1)
             else (case invoke w1 (Classify (take 3000 pdf_context) question) of
                     (Inr content, w2) \<Rightarrow>
                       (let category = lower (strip content) in
                        (Inr (if category \<in> set [''rag'', ''weather'', ''unknown'']
                              then category else ''unknown''), w2))
                   | (Inl e, w2) \<Rightarrow> (Inr ''unknown'', w2))))"

section \<open>helper.py: fingerprint, descriptor and index\<close>

definition get_or_create_client :: "world \<Rightarrow> string \<Rightarrow> world" where
  "get_or_create_client w persist_dir = w\<lparr>client_cache := insert persist_dir (client_cache w)\<rparr>"

text \<open>
  \<open>file_fingerprint\<close>: \<open>p.stat()\<close> raises for a missing file. A cache file whose
  \<open>quick_key\<close> equals the current one is returned as it is; otherwise the content is hashed,
  and the result written to the cache file (a failing write is ignored).
\<close>

definition file_fingerprint :: "world \<Rightarrow> string \<Rightarrow> fingerprint result" where
  "file_fingerprint w path =
     (case doc_files w path of
        None \<Rightarrow> (Inl FileNotFoundError, w)
      | Some f \<Rightarrow>
          (let st_size = length (file_bytes f);
               quick = str_nat st_size @ ''_'' @ str_int (st_mtime f);
               cache_file = ''.cache_'' @ md5_hex w path @ ''.json'';
               hit = (case fp_cache_files w cache_file of
                        Some (CacheDict cached) \<Rightarrow>
                          if quick_key cached = quick then Some cached else None
                      | _ \<Rightarrow> None)
           in case hit of
                Some cached \<Rightarrow> (Inr cached, w)
              | None \<Rightarrow>
                  (let result = \<lparr>sha256 = sha256_hex w (file_bytes f), fp_size = st_size,
                                 fp_mtime = st_mtime f, quick_key = quick\<rparr>
                   in (Inr result,
                       if cache_writable w
                       then w\<lparr>fp_cache_files := (fp_cache_files w)(cache_file \<mapsto> CacheDict result)\<rparr>
                       else w))))"

definition generate_collection_name :: "world \<Rightarrow> string \<Rightarrow> string result" where
  "generate_collection_name w pdf_path =
     then_do (file_fingerprint w pdf_path) (\<lambda>fp w1. (Inr (''pdf_'' @ take 24 (sha256 fp)), w1))"

definition get_index_metadata :: "world \<Rightarrow> string \<Rightarrow> int \<Rightarrow> int \<Rightarrow> string \<Rightarrow> descriptor result" where
  "get_index_metadata w pdf_path chunk_size chunk_overlap embed_model =
     then_do (file_fingerprint w pdf_path) (\<lambda>fp w1.
       (Inr \<lparr>d_pdf_fingerprint = Some fp, d_chunk_size = Some chunk_size,
             d_chunk_overlap = Some chunk_overlap, d_embedding_model = Some embed_model,
             d_format = Some ''v2'', d_collection_name = None\<rparr>, w1))"

definition save_metadata :: "world \<Rightarrow> string \<Rightarrow> descriptor \<Rightarrow> world" where
  "save_metadata w persist_dir metadata =
     w\<lparr>dirs := insert persist_dir (dirs w),
       meta_files := (meta_files w)(persist_dir \<mapsto> MetaDict metadata)\<rparr>"

definition load_metadata :: "world \<Rightarrow> string \<Rightarrow> meta_file option result" where
  "load_metadata w persist_dir =
     (case meta_files w persist_dir of
        None \<Rightarrow> (Inr None, w)
      | Some MetaInvalid \<Rightarrow> (Inl JSONDecodeError, w)
      | Some m \<Rightarrow> (Inr (Some m), w))"

text \<open>
  \<open>is_index_valid\<close>. The listing of the collections is inside \<open>try\<close>: a failure there gives
  \<open>False\<close>. \<open>load_metadata\<close> and \<open>get_index_metadata\<close> are outside it.
\<close>

definition is_index_valid ::
  "world \<Rightarrow> string \<Rightarrow> string \<Rightarrow> string \<Rightarrow> int \<Rightarrow> int \<Rightarrow> string \<Rightarrow> bool result" where
  "is_index_valid w collection_name persist_dir pdf_path chunk_size chunk_overlap embed_model =
     (if persist_dir \<notin> dirs w then (Inr False, w)
      else (let w1 = emit (EvBackend OpList persist_dir []) (get_or_create_client w persist_dir) in
            if backend_fails w1 OpList then (Inr False, w1)
            else if collections w1 persist_dir collection_name = None then (Inr False, w1)
            else then_do (load_metadata w1 persist_dir) (\<lambda>saved_meta w2.
                   case saved_meta of
                     None \<Rightarrow> (Inr False, w2)
                   | Some MetaFalsy \<Rightarrow> (Inr False, w2)
                   | Some m \<Rightarrow>
                       then_do (get_index_metadata w2 pdf_path chunk_size chunk_overlap embed_model)
                         (\<lambda>current_meta w3.
                            case m of
                              MetaDict saved \<Rightarrow>
                                (Inr (d_pdf_fingerprint saved = d_pdf_fingerprint current_meta
                                      \<and> d_chunk_size saved = d_chunk_size current_meta
                                      \<and> d_chunk_overlap saved = d_chunk_overlap current_meta
                                      \<and> d_embedding_model saved = d_embedding_model current_meta),
                                 w3)
                            | _ \<Rightarrow> (Inl AttributeError, w3)))))"

text \<open>
  \<open>build_qdrant_vectorstore\<close>: the probe embedding, the deletion of an old collection
  (inside \<open>try\<close>, a failure is ignored), the creation (it raises when the collection is still
  there), and the adding of the chunks. Nothing after the creation is inside \<open>try\<close>.
\<close>

definition set_collection :: "world \<Rightarrow> string \<Rightarrow> string \<Rightarrow> document list option \<Rightarrow> world" where
  "set_collection w persist_dir collection_name v =
     w\<lparr>collections := (collections w)(persist_dir := (collections w persist_dir)(collection_name := v))\<rparr>"

definition build_qdrant_vectorstore ::
  "world \<Rightarrow> document list \<Rightarrow> string \<Rightarrow> string \<Rightarrow> string \<Rightarrow> qdrant result" where
  "build_qdrant_vectorstore w splits collection_name persist_dir embed_model_name =
     (let w1 = get_or_create_client w persist_dir in
      then_do (embed_query w1 embed_model_name ''test'', emit (EvEmbed ''test'') w1)
        (\<lambda>vector_size w2.
           let w3 = emit (EvBackend OpDelete persist_dir collection_name) w2;
               w4 = (if backend_fails w3 OpDelete then w3
                     else set_collection w3 persist_dir collection_name None);
               w5 = emit (EvBackend OpCreate persist_dir collection_name) w4
           in if backend_fails w5 OpCreate \<or> collections w5 persist_dir collection_name \<noteq> None
              then (Inl BackendError, w5)
              else (let w6 = set_collection w5 persist_dir collection_name (Some []);
                        w7 = emit (EvBackend OpAdd persist_dir collection_name) w6
                    in if backend_fails w7 OpAdd then (Inl BackendError, w7)
                       else (Inr \<lparr>vs_persist_dir = persist_dir, vs_collection = collection_name,
                                   vs_embed_model = embed_model_name\<rparr>,
                             set_collection w7 persist_dir collection_name (Some splits)))))"

definition load_qdrant_vectorstore :: "world \<Rightarrow> string \<Rightarrow> string \<Rightarrow> string \<Rightarrow> qdrant result" where
  "load_qdrant_vectorstore w collection_name persist_dir embed_model_name =
     (let cache_key = persist_dir @ '':'' @ collection_name @ '':'' @ embed_model_name in
      case vectorstore_cache w cache_key of
        Some vs \<Rightarrow> (Inr vs, w)
      | None \<Rightarrow>
          (let w1 = get_or_create_client w persist_dir;
               vs = \<lparr>vs_persist_dir = persist_dir, vs_collection = collection_name,
                     vs_embed_model = embed_model_name\<rparr>
           in (Inr vs, w1\<lparr>vectorstore_cache := (vectorstore_cache w1)(cache_key \<mapsto> vs)\<rparr>)))"

definition format_documents :: "document list \<Rightarrow> string" where
  "format_documents ds = join [CHR 0x0A, CHR 0x0A] (map page_content ds)"

section \<open>unified\_schemas.py\<close>

text \<open>The \<open>metadata\<close> dictionary of a handler's answer; a key that is not set is \<open>None\<close>.\<close>

record out_metadata =
  m_agent :: string
  m_success :: "bool option"
  m_city :: "string option"
  m_state :: "string option"
  m_temperature :: "string option"

text \<open>
  \<open>UnifiedState\<close>. \<open>IntegratedApp.query\<close> sets \<open>question\<close>, \<open>pdf_path\<close>, \<open>chunk_size\<close>,
  \<open>chunk_overlap\<close>, \<open>embed_model\<close>, \<open>k\<close> and \<open>force_rebuild\<close>; every other key is absent
  (\<open>None\<close>) until a node sets it. A node's returned dictionary is merged into the state by
  the engine: \<open>steps\<close> is appended (\<open>operator.add\<close>), every other key is overwritten. The node
  functions below return the merged state.
\<close>

record ustate =
  question :: string
  pdf_path :: "string option"
  agent_type :: "string option"
  chunk_size :: int
  chunk_overlap :: int
  embed_model :: string
  force_rebuild :: "bool option"
  k :: "int option"
  docs :: "document list option"
  splits :: "document list option"
  collection_name :: "string option"
  persist_dir :: "string option"
  cache_hit :: "bool option"
  vectorstore :: "qdrant option"
  retrieved_docs :: "document list option"
  context_text :: "string option"
  city :: "string option"
  state_name :: "string option"
  weather_data :: "body option"
  answer :: "string option"
  metadata :: "out_metadata option"
  steps :: "string list"

definition add_step :: "string \<Rightarrow> ustate \<Rightarrow> ustate" where
  "add_step s st = st\<lparr>steps := steps st @ [s]\<rparr>"

section \<open>utils.py: the nodes of the document branch\<close>

text \<open>\<open>state["key"]\<close> on a key that is absent raises \<open>KeyError\<close>.\<close>

definition subscript :: "'a option \<Rightarrow> world \<Rightarrow> 'a result" where
  "subscript v w = (case v of None \<Rightarrow> (Inl KeyError, w) | Some x \<Rightarrow> (Inr x, w))"

definition check_cache_node :: "world \<Rightarrow> ustate \<Rightarrow> ustate result" where
  "check_cache_node w st =
     (case pdf_path st of
        None \<Rightarrow> (Inl TypeError, w)
      | Some path \<Rightarrow>
          then_do (generate_collection_name w path) (\<lambda>name w1.
            let pdir = INDEX_ROOT @ ''/'' @ name in
            then_do (is_index_valid w1 name pdir path (chunk_size st) (chunk_overlap st)
                       (embed_model st)) (\<lambda>valid w2.
              let hit = (valid \<and> \<not> (case force_rebuild st of None \<Rightarrow> False | Some b \<Rightarrow> b));
                  status = (if hit then [CHR 0xE2, CHR 0x9C, CHR 0x93] @ '' Found valid cached index''
                            else [CHR 0xE2, CHR 0x9C, CHR 0x97] @ '' No valid cache found'')
              in (Inr (add_step status
                         (st\<lparr>collection_name := Some name, persist_dir := Some pdir,
                             cache_hit := Some hit\<rparr>)), w2))))"

definition load_pdf_node :: "world \<Rightarrow> ustate \<Rightarrow> ustate result" where
  "load_pdf_node w st =
     (case pdf_path st of
        None \<Rightarrow> (Inl TypeError, w)
      | Some path \<Rightarrow>
          then_do (load_pdf w path) (\<lambda>ds w1.
            (Inr (add_step ([CHR 0xE2, CHR 0x9C, CHR 0x93] @ '' Loaded PDF ('' @ str_nat (length ds) @ '' pages)'')
                    (st\<lparr>docs := Some ds\<rparr>)), w1)))"

definition split_docs_node :: "world \<Rightarrow> ustate \<Rightarrow> ustate result" where
  "split_docs_node w st =
     then_do (subscript (docs st) w) (\<lambda>ds w1.
     then_do (split_documents w1 ds (chunk_size st) (chunk_overlap st)) (\<lambda>sp w2.
       (Inr (add_step ([CHR 0xE2, CHR 0x9C, CHR 0x93] @ '' Split into '' @ str_nat (length sp) @ '' chunks'')
               (st\<lparr>splits := Some sp\<rparr>)), w2)))"

definition build_index_node :: "world \<Rightarrow> ustate \<Rightarrow> ustate result" where
  "build_index_node w st =
     then_do (subscript (splits st) w) (\<lambda>sp w1.
     then_do (subscript (collection_name st) w1) (\<lambda>name w2.
     then_do (subscript (persist_dir st) w2) (\<lambda>pdir w3.
     then_do (build_qdrant_vectorstore w3 sp name pdir (embed_model st)) (\<lambda>vs w4.
     then_do (subscript (pdf_path st) w4) (\<lambda>path w5.
     then_do (get_index_metadata w5 path (chunk_size st) (chunk_overlap st) (embed_model st))
       (\<lambda>metadata w6.
          (Inr (add_step ([CHR 0xE2, CHR 0x9C, CHR 0x93] @ '' Built and saved new Qdrant index'')
                  (st\<lparr>vectorstore := Some vs\<rparr>)),
           save_metadata w6 pdir (metadata\<lparr>d_collection_name := Some name\<rparr>))))))))"

definition load_index_node :: "world \<Rightarrow> ustate \<Rightarrow> ustate result" where
  "load_index_node w st =
     then_do (subscript (collection_name st) w) (\<lambda>name w1.
     then_do (subscript (persist_dir st) w1) (\<lambda>pdir w2.
     then_do (load_qdrant_vectorstore w2 name pdir (embed_model st)) (\<lambda>vs w3.
       (Inr (add_step ([CHR 0xE2, CHR 0x9A, CHR 0xA1] @ '' Loaded cached index (fast path)'')
               (st\<lparr>vectorstore := Some vs\<rparr>)), w3))))"

text \<open>
  \<open>retrieve_node\<close>: the similarity search on the collection of the handle; it raises when
  the backend fails or the collection is not there.
\<close>

definition retrieve_node :: "world \<Rightarrow> ustate \<Rightarrow> ustate result" where
  "retrieve_node w st =
     then_do (subscript (vectorstore st) w) (\<lambda>vs w1.
       let w2 = emit (EvBackend OpSearch (vs_persist_dir vs) (vs_collection vs)) w1 in
       if backend_fails w2 OpSearch then (Inl BackendError, w2)
       else (case collections w2 (vs_persist_dir vs) (vs_collection vs) of
               None \<Rightarrow> (Inl BackendError, w2)
             | Some stored \<Rightarrow>
                 (let ds = search w2 stored (question st) (case k st of None \<Rightarrow> 4 | Some n \<Rightarrow> n)
                  in (Inr (add_step ([CHR 0xE2, CHR 0x9C, CHR 0x93] @ '' Retrieved '' @ str_nat (length ds)
                                     @ '' relevant chunks'')
                             (st\<lparr>retrieved_docs := Some ds,
                                 context_text := Some (format_documents ds)\<rparr>)), w2))))"

definition generate_answer_node :: "world \<Rightarrow> ustate \<Rightarrow> ustate result" where
  "generate_answer_node w st =
     then_do (subscript (context_text st) w) (\<lambda>ctx w1.
     then_do (invoke w1 (AnswerFromContext (question st) ctx)) (\<lambda>a w2.
       (Inr (add_step ([CHR 0xE2, CHR 0x9C, CHR 0x93] @ '' Generated answer'') (st\<lparr>answer := Some a\<rparr>)), w2)))"

definition should_build_index :: "ustate \<Rightarrow> error + string" where
  "should_build_index st =
     (case cache_hit st of
        None \<Rightarrow> Inl KeyError
      | Some hit \<Rightarrow> Inr (if hit then ''load_index'' else ''load_pdf''))"

section \<open>weather\_agent.py\<close>

text \<open>
  \<open>extract_location_from_query\<close>: the call of the chat model is outside \<open>try\<close>; an answer
  that is no JSON gives the dictionary of two \<open>None\<close>. The result is \<open>None\<close> here when the
  answer is a JSON value that is no object.
\<close>

definition extract_location_from_query :: "world \<Rightarrow> string \<Rightarrow> location option result" where
  "extract_location_from_query w q =
     then_do (invoke w (ExtractLocation q)) (\<lambda>result w1.
       case json_loads_location w1 result of
         ExtractNoJson \<Rightarrow> (Inr (Some \<lparr>loc_city = None, loc_state = None\<rparr>), w1)
       | ExtractNoDict \<Rightarrow> (Inr None, w1)
       | ExtractDict loc \<Rightarrow> (Inr (Some loc), w1))"

text \<open>
  \<open>fetch_weather_data\<close>: every exception of the request is swallowed; the result is the
  body only for status 200.
\<close>

definition weather_url :: "world \<Rightarrow> string \<Rightarrow> string option \<Rightarrow> string" where
  "weather_url w cty st =
     ''https://api.openweathermap.org/data/2.5/weather?q='' @ cty @ '','' @ str_opt st
     @ ''&appid='' @ str_opt (openweather_api_key w) @ ''&units=metric''"

definition fetch_weather_data :: "world \<Rightarrow> string \<Rightarrow> string option \<Rightarrow> body option \<times> world" where
  "fetch_weather_data w cty st =
     (if cty = [] then (None, w)
      else (let url = weather_url w cty st;
                w1 = emit (EvHttpGet url) w
            in case http_get w1 url of
                 ConnectionFailed \<Rightarrow> (None, w1)
               | Response status_code b \<Rightarrow> (if status_code = 200 then (b, w1) else (None, w1))))"

definition format_weather_answer :: "body option \<Rightarrow> string \<Rightarrow> string" where
  "format_weather_answer wd cty =
     (case wd of
        Some (BodyJson p) \<Rightarrow>
          (case (p_temp p, p_feels_like p, p_humidity p, p_description p, p_wind_speed p) of
             (Some temp, Some feels_like, Some humidity, Some description, Some wind_speed) \<Rightarrow>
               [CHR 0xF0, CHR 0x9F, CHR 0x8C, CHR 0xA4, CHR 0xEF, CHR 0xB8, CHR 0x8F] @ '' **Weather in '' @ title cty @ ''**'' @ [CHR 0x0A, CHR 0x0A] @ ''**Temperature:** '' @ temp @ [CHR 0xC2, CHR 0xB0] @ ''C (Feels like '' @ feels_like
               @ [CHR 0xC2, CHR 0xB0] @ ''C)'' @ [CHR 0x0A] @ ''**Condition:** '' @ title description @ [CHR 0x0A] @ ''**Humidity:** '' @ humidity
               @ ''%'' @ [CHR 0x0A] @ ''**Wind Speed:** '' @ wind_speed @ '' m/s'' @ [CHR 0x0A, CHR 0x0A] @ ''Have a great day! '' @ [CHR 0xF0, CHR 0x9F, CHR 0x8C, CHR 0x88]
           | _ \<Rightarrow> ''Weather data received but couldn'' @ [CHR 0x27] @ ''t parse it.'')
      | _ \<Rightarrow> ''Sorry, couldn'' @ [CHR 0x27] @ ''t fetch weather for '' @ cty @ ''.'')"

section \<open>weather\_nodes.py\<close>

text \<open>The two answers of \<open>weather_node\<close> for a question it cannot serve.\<close>

definition no_city_answer :: string where
  "no_city_answer =
     ''I couldn'' @ [CHR 0x27] @ ''t identify a city from your question. ''
     @ ''Please specify a city name.'' @ [CHR 0x0A, CHR 0x0A] @ ''**Example:** '' @ [CHR 0x27]
     @ ''What'' @ [CHR 0x27] @ ''s the weather in Mumbai?'' @ [CHR 0x27] @ '' or '' @ [CHR 0x27]
     @ ''Temperature in Pune, Maharashtra?'' @ [CHR 0x27]"

definition fetch_failed_answer :: "string \<Rightarrow> string" where
  "fetch_failed_answer location_str =
     ''Sorry, couldn'' @ [CHR 0x27] @ ''t fetch weather data for '' @ location_str
     @ ''. Please check the city/state name and try again.''"

definition weather_node :: "world \<Rightarrow> ustate \<Rightarrow> ustate result" where
  "weather_node w st =
     then_do (extract_location_from_query w (question st)) (\<lambda>loc w1.
       case loc of
         None \<Rightarrow> (Inl AttributeError, w1)
       | Some l \<Rightarrow>
           if \<not> truthy (loc_city l)
           then (Inr (add_step ([CHR 0xE2, CHR 0x9D, CHR 0x8C] @ '' No city found in query'')
                        (st\<lparr>answer := Some no_city_answer,
                            metadata := Some \<lparr>m_agent = ''weather'', m_success = Some False,
                                               m_city = None, m_state = None,
                                               m_temperature = None\<rparr>\<rparr>)), w1)
           else (let cty = str_opt (loc_city l) in
                 case fetch_weather_data w1 cty (loc_state l) of
                   (wd, w2) \<Rightarrow>
                     (case wd of
                        Some (BodyJson p) \<Rightarrow>
                          (case p_temp p of
                             None \<Rightarrow> (Inl KeyError, w2)
                           | Some temp \<Rightarrow>
                               (Inr (add_step ([CHR 0xE2, CHR 0x9C, CHR 0x93] @ '' Fetched weather for '' @ cty
                                               @ (if truthy (loc_state l)
                                                  then '', '' @ str_opt (loc_state l) else []))
                                       (st\<lparr>city := Some cty, state_name := loc_state l,
                                           weather_data := wd,
                                           answer := Some (format_weather_answer wd cty),
                                           metadata := Some \<lparr>m_agent = ''weather'',
                                                              m_success = Some True,
                                                              m_city = Some cty,
                                                              m_state = loc_state l,
                                                              m_temperature = Some temp\<rparr>\<rparr>)),
                                w2))
                      | _ \<Rightarrow>
                          (let location_str = (if truthy (loc_state l)
                                               then cty @ '', '' @ str_opt (loc_state l) else cty)
                           in (Inr (add_step ([CHR 0xE2, CHR 0x9D, CHR 0x8C] @ '' Weather API failed for '' @ location_str)
                                      (st\<lparr>answer := Some (fetch_failed_answer location_str),
                                          metadata := Some \<lparr>m_agent = ''weather'',
                                                             m_success = Some False,
                                                             m_city = Some cty,
                                                             m_state = loc_state l,
                                                             m_temperature = None\<rparr>\<rparr>)),
                               w2)))))"

definition unknown_node :: "world \<Rightarrow> ustate \<Rightarrow> ustate result" where
  "unknown_node w st =
     (let pdf_status = (if truthy (pdf_path st) then [CHR 0xE2, CHR 0x9C, CHR 0x93] @ '' PDF loaded''
                        else [CHR 0xE2, CHR 0x9C, CHR 0x97] @ '' No PDF'')
      in (Inr (add_step ([CHR 0xE2, CHR 0x9D, CHR 0x93] @ '' Unknown query type'')
                 (st\<lparr>answer := Some (''I can help you with:'' @ [CHR 0x0A, CHR 0x0A] @ ''1. '' @ [CHR 0xF0, CHR 0x9F, CHR 0x93, CHR 0x84] @ '' **Document Questions** - Ask about your uploaded PDF'' @ [CHR 0x0A] @ ''   Status: ''
                                     @ pdf_status
                                     @ [CHR 0x0A] @ ''   '' @ [CHR 0x0A] @ ''2. '' @ [CHR 0xF0, CHR 0x9F, CHR 0x8C, CHR 0xA4, CHR 0xEF, CHR 0xB8, CHR 0x8F] @ '' **Weather Information** - Get weather for any city'' @ [CHR 0x0A] @ ''   Example: '' @ [CHR 0x22] @ ''What'' @ [CHR 0x27] @ ''s the weather in Mumbai?'' @ [CHR 0x22, CHR 0x0A, CHR 0x0A] @ ''Please ask a question in one of these categories!''),
                     metadata := Some \<lparr>m_agent = ''unknown'', m_success = None, m_city = None,
                                        m_state = None, m_temperature = None\<rparr>\<rparr>)), w))"

section \<open>routing\_nodes.py\<close>

definition router_node :: "world \<Rightarrow> ustate \<Rightarrow> ustate result" where
  "router_node w st =
     (let pdf_available = truthy (pdf_path st) in
      then_do (route_to_agent w (question st) pdf_available) (\<lambda>agent w1.
        (Inr (add_step ([CHR 0xF0, CHR 0x9F, CHR 0xA7, CHR 0xAD] @ '' Routed to: '' @ upper agent @ '' agent'')
                (st\<lparr>agent_type := Some agent\<rparr>)), w1)))"

section \<open>integrated\_workflow.py\<close>

definition route_after_classification :: "ustate \<Rightarrow> string" where
  "route_after_classification st =
     (let agent = (case agent_type st of None \<Rightarrow> ''unknown'' | Some a \<Rightarrow> a) in
      if agent = ''weather'' then ''weather''
      else if agent = ''rag''
      then (if \<not> truthy (pdf_path st) then ''unknown'' else ''check_cache'')
      else ''unknown'')"

text \<open>
  The graph of \<open>build_integrated_workflow\<close>: the function of each node, and its edges. A
  conditional edge looks the returned key up in its table.
\<close>

definition exec_node :: "node \<Rightarrow> world \<Rightarrow> ustate \<Rightarrow> ustate result" where
  "exec_node n w st =
     (case n of
        Router \<Rightarrow> router_node w st
      | Weather \<Rightarrow> weather_node w st
      | Unknown \<Rightarrow> unknown_node w st
      | CheckCache \<Rightarrow> check_cache_node w st
      | LoadPdf \<Rightarrow> load_pdf_node w st
      | SplitDocs \<Rightarrow> split_docs_node w st
      | BuildIndex \<Rightarrow> build_index_node w st
      | LoadIndex \<Rightarrow> load_index_node w st
      | Retrieve \<Rightarrow> retrieve_node w st
      | Generate \<Rightarrow> generate_answer_node w st
      | END \<Rightarrow> (Inr st, w))"

definition next_node :: "node \<Rightarrow> ustate \<Rightarrow> error + node" where
  "next_node n st =
     (case n of
        Router \<Rightarrow>
          (let key = route_after_classification st in
           if key = ''weather'' then Inr Weather
           else if key = ''check_cache'' then Inr CheckCache
           else if key = ''unknown'' then Inr Unknown
           else Inl KeyError)
      | Weather \<Rightarrow> Inr END
      | Unknown \<Rightarrow> Inr END
      | CheckCache \<Rightarrow>
          (case should_build_index st of
             Inl e \<Rightarrow> Inl e
           | Inr key \<Rightarrow>
               if key = ''load_index'' then Inr LoadIndex
               else if key = ''load_pdf'' then Inr LoadPdf
               else Inl KeyError)
      | LoadPdf \<Rightarrow> Inr SplitDocs
      | SplitDocs \<Rightarrow> Inr BuildIndex
      | BuildIndex \<Rightarrow> Inr Retrieve
      | LoadIndex \<Rightarrow> Inr Retrieve
      | Retrieve \<Rightarrow> Inr Generate
      | Generate \<Rightarrow> Inr END
      | END \<Rightarrow> Inr END)"

text \<open>The longest path from a node to \<open>END\<close>: the graph has no cycle.\<close>

definition rank :: "node \<Rightarrow> nat" where
  "rank n =
     (case n of
        Router \<Rightarrow> 7 | CheckCache \<Rightarrow> 6 | LoadPdf \<Rightarrow> 5 | SplitDocs \<Rightarrow> 4 | BuildIndex \<Rightarrow> 3
      | LoadIndex \<Rightarrow> 3 | Retrieve \<Rightarrow> 2 | Generate \<Rightarrow> 1 | Weather \<Rightarrow> 1 | Unknown \<Rightarrow> 1
      | END \<Rightarrow> 0)"

text \<open>
  \<open>workflow.invoke\<close>: from a node, run its function, merge, follow the edge, until \<open>END\<close>. An
  exception of a node or of an edge function leaves \<open>invoke\<close>.
\<close>

function run :: "node \<Rightarrow> world \<Rightarrow> ustate \<Rightarrow> ustate result" where
  "run n w st =
     (if n = END then (Inr st, w)
      else (case exec_node n (emit (EvNode n) w) st of
              (Inl e, w1) \<Rightarrow> (Inl e, w1)
            | (Inr st1, w1) \<Rightarrow>
                (case next_node n st1 of
                   Inl e \<Rightarrow> (Inl e, w1)
                 | Inr n1 \<Rightarrow> run n1 w1 st1)))"
  by pat_completeness auto
termination
  by (relation "measure (\<lambda>(n, w, st). rank n)")
     (auto simp: next_node_def rank_def should_build_index_def Let_def
           split: node.splits if_splits sum.splits option.splits)

declare run.simps [simp del]

text \<open>
  The run from one node arrives at another: it has entered every node before it, in
  order, and each of them has returned.
\<close>

inductive reaches :: "node \<Rightarrow> world \<Rightarrow> ustate \<Rightarrow> node \<Rightarrow> world \<Rightarrow> ustate \<Rightarrow> bool" where
  start: "reaches n w st n w st"
| step: "reaches n w st n1 w1 st1 \<Longrightarrow> n1 \<noteq> END
         \<Longrightarrow> exec_node n1 (emit (EvNode n1) w1) st1 = (Inr st2, w2)
         \<Longrightarrow> next_node n1 st2 = Inr n2 \<Longrightarrow> reaches n w st n2 w2 st2"

code_pred (modes: i \<Rightarrow> i \<Rightarrow> i \<Rightarrow> o \<Rightarrow> o \<Rightarrow> o \<Rightarrow> bool) reaches .

section \<open>integrated\_app.py\<close>

text \<open>
  \<open>IntegratedApp.query\<close>: the input state, and the result of \<open>workflow.invoke\<close> as it is;
  the entry edge of the graph leads to the router.
\<close>

definition input_state ::
  "string \<Rightarrow> string option \<Rightarrow> int \<Rightarrow> int \<Rightarrow> string \<Rightarrow> int \<Rightarrow> bool \<Rightarrow> ustate" where
  "input_state q path csize coverlap emodel topk force =
     \<lparr>question = q, pdf_path = path, agent_type = None, chunk_size = csize,
      chunk_overlap = coverlap, embed_model = emodel, force_rebuild = Some force,
      k = Some topk, docs = None, splits = None, collection_name = None,
      persist_dir = None, cache_hit = None, vectorstore = None, retrieved_docs = None,
      context_text = None, city = None, state_name = None, weather_data = None,
      answer = None, metadata = None, steps = []\<rparr>"

definition query ::
  "world \<Rightarrow> string \<Rightarrow> string option \<Rightarrow> int \<Rightarrow> int \<Rightarrow> string \<Rightarrow> int \<Rightarrow> bool \<Rightarrow> ustate result" where
  "query w q path csize coverlap emodel topk force =
     run Router w (input_state q path csize coverlap emodel topk force)"

section \<open>Worlds for the scenarios\<close>

text \<open>
  An empty file system with a backend that answers, a chat model, a loader and a weather
  provider that are unreachable, and stand-ins for the two hash functions (the identity,
  which has no collisions).
\<close>

definition quiet_world :: world where
  "quiet_world =
     \<lparr>doc_files = Map.empty, fp_cache_files = Map.empty, cache_writable = True, dirs = {},
      meta_files = Map.empty, pdf_folders = Map.empty, client_cache = {},
      vectorstore_cache = Map.empty, pdf_context_cache = Map.empty,
      collections = (\<lambda>d. Map.empty), backend_fails = (\<lambda>op. False),
      loader = (\<lambda>path. Inl LoaderError), splitter = (\<lambda>size overlap ds. Inr ds),
      llm = (\<lambda>p. Inl LLMError), json_loads_location = (\<lambda>text. ExtractNoJson),
      embed_query = (\<lambda>model text. Inr 1536), search = (\<lambda>ds q n. take (nat n) ds),
      http_get = (\<lambda>url. ConnectionFailed), sha256_hex = id, md5_hex = id,
      openweather_api_key = None, events = []\<rparr>"

text \<open>
  A document of thirteen bytes, and the world after its index was built with chunk size
  1000, overlap 150 and model \<open>m1\<close>: the collection and the descriptor are there.
\<close>

definition report_pdf :: doc_file where
  "report_pdf = \<lparr>file_bytes = ''annual report'', st_mtime = 1700000000\<rparr>"

definition report_fp :: fingerprint where
  "report_fp = \<lparr>sha256 = ''annual report'', fp_size = 13, fp_mtime = 1700000000,
                quick_key = ''13_1700000000''\<rparr>"

definition report_descriptor :: descriptor where
  "report_descriptor =
     \<lparr>d_pdf_fingerprint = Some report_fp, d_chunk_size = Some 1000, d_chunk_overlap = Some 150,
      d_embedding_model = Some ''m1'', d_format = Some ''v2'',
      d_collection_name = Some ''pdf_annual report''\<rparr>"

definition report_chunks :: "document list" where
  "report_chunks = [\<lparr>page_content = ''annual report'', doc_metadata = [(''page'', ''0'')]\<rparr>]"

definition indexed_world :: world where
  "indexed_world =
     quiet_world
       \<lparr>doc_files := [''report.pdf'' \<mapsto> report_pdf],
        dirs := {''.indices/pdf_annual report''},
        meta_files := [''.indices/pdf_annual report'' \<mapsto> MetaDict report_descriptor],
        collections := (\<lambda>d. if d = ''.indices/pdf_annual report''
                              then [''pdf_annual report'' \<mapsto> report_chunks] else Map.empty)\<rparr>"

text \<open>The request of the first scenario: a question on the document, no forced rebuild.\<close>

definition report_request :: ustate where
  "report_request = input_state ''Summarize section 2'' (Some ''report.pdf'') 1000 150 ''m1'' 4 False"

text \<open>
  The document edited in place: other bytes of the same number, and the same whole second
  of modification, with the fingerprint cache file of the first version still there.
  Then the same edit saved a minute later.
\<close>

definition edited_pdf :: doc_file where
  "edited_pdf = \<lparr>file_bytes = ''annual_report'', st_mtime = 1700000000\<rparr>"

definition stale_world :: world where
  "stale_world =
     indexed_world
       \<lparr>doc_files := [''report.pdf'' \<mapsto> edited_pdf],
        fp_cache_files := [''.cache_report.pdf.json'' \<mapsto> CacheDict report_fp]\<rparr>"

definition touched_pdf :: doc_file where
  "touched_pdf = \<lparr>file_bytes = ''annual_report'', st_mtime = 1700000060\<rparr>"

definition touched_world :: world where
  "touched_world = stale_world\<lparr>doc_files := [''report.pdf'' \<mapsto> touched_pdf]\<rparr>"

text \<open>
  The document before any index was built, with a loader that reads it.
\<close>

definition unindexed_world :: world where
  "unindexed_world =
     quiet_world
       \<lparr>doc_files := [''report.pdf'' \<mapsto> report_pdf],
        loader := (\<lambda>path. if path = ''report.pdf'' then Inr report_chunks else Inl LoaderError)\<rparr>"



text \<open>
  A router that classifies as \<open>rag\<close>: the folder of uploads holds a document whose summary
  is cached, and the chat model answers the merge and the classification.
\<close>

definition with_rag_router :: "world \<Rightarrow> world" where
  "with_rag_router w =
     w\<lparr>pdf_folders := [''uploaded_pdfs'' \<mapsto> [''report.pdf'']],
       pdf_context_cache := [''uploaded_pdfs/report.pdf:gpt-4o-mini'' \<mapsto> ''An annual report.''],
       llm := (\<lambda>p. case p of MergeContexts s \<Rightarrow> Inr ''An annual report.''
                               | Classify ctx q \<Rightarrow> Inr ''rag''
                               | _ \<Rightarrow> Inl LLMError)\<rparr>"

text \<open>
  The indexed world with a \<open>meta.json\<close> that is no JSON, and a world whose loader rejects
  the document.
\<close>

definition corrupt_world :: world where
  "corrupt_world =
     with_rag_router
       (indexed_world\<lparr>meta_files := [''.indices/pdf_annual report'' \<mapsto> MetaInvalid]\<rparr>)"

definition unreadable_world :: world where
  "unreadable_world = with_rag_router (quiet_world\<lparr>doc_files := [''report.pdf'' \<mapsto> report_pdf]\<rparr>)"








section \<open>Containment\<close>





section \<open>The router\<close>






section \<open>The fingerprint and the cache gate\<close>

lemma digit_char_simps:
  "digit_char 0 = CHR ''0''" "digit_char 1 = CHR ''1''" "digit_char 2 = CHR ''2''"
  "digit_char 3 = CHR ''3''" "digit_char 4 = CHR ''4''" "digit_char 5 = CHR ''5''"
  "digit_char 6 = CHR ''6''" "digit_char 7 = CHR ''7''" "digit_char 8 = CHR ''8''"
  "digit_char 9 = CHR ''9''" "digit_char (Suc 0) = CHR ''1''"
  by code_simp+

lemma report_numbers: "str_nat 13 = ''13''" "str_int 1700000000 = ''1700000000''"
  by (simp_all add: str_nat.simps str_int_def digit_char_simps)

lemma file_fingerprint_idem:
  assumes "file_fingerprint w p = (Inr fp, w1)"
  shows "file_fingerprint w1 p = (Inr fp, w1)"
  using assms
  by (auto simp: file_fingerprint_def Let_def split: option.splits cache_file.splits if_splits)

lemma file_fingerprint_cong:
  assumes "doc_files v = doc_files w" "fp_cache_files v = fp_cache_files w"
    "cache_writable v = cache_writable w" "md5_hex v = md5_hex w" "sha256_hex v = sha256_hex w"
  shows "fst (file_fingerprint v p) = fst (file_fingerprint w p)"
  using assms
  by (auto simp: file_fingerprint_def Let_def split: option.splits cache_file.splits if_splits)

lemma file_fingerprint_frame:
  assumes "file_fingerprint w p = (r, w1)"
  shows "meta_files w1 = meta_files w \<and> collections w1 = collections w \<and> dirs w1 = dirs w
         \<and> backend_fails w1 = backend_fails w \<and> doc_files w1 = doc_files w
         \<and> md5_hex w1 = md5_hex w \<and> sha256_hex w1 = sha256_hex w
         \<and> cache_writable w1 = cache_writable w \<and> events w1 = events w"
  using assms
  by (auto simp: file_fingerprint_def Let_def split: option.splits cache_file.splits if_splits)



lemma check_cache_node_result:
  assumes "check_cache_node w st = (Inr st', w')"
  shows "\<exists>path fp w1 valid.
           pdf_path st = Some path \<and> file_fingerprint w path = (Inr fp, w1)
         \<and> is_index_valid w1 (''pdf_'' @ take 24 (sha256 fp))
               (INDEX_ROOT @ ''/'' @ ''pdf_'' @ take 24 (sha256 fp)) path
               (chunk_size st) (chunk_overlap st) (embed_model st) = (Inr valid, w')
         \<and> collection_name st' = Some (''pdf_'' @ take 24 (sha256 fp))
         \<and> persist_dir st' = Some (INDEX_ROOT @ ''/'' @ ''pdf_'' @ take 24 (sha256 fp))
         \<and> cache_hit st' = Some (valid \<and> force_rebuild st \<noteq> Some True)"
proof -
  from assms obtain path where p: "pdf_path st = Some path"
    by (auto simp: check_cache_node_def split: option.splits)
  from assms p obtain fp w1 where f: "file_fingerprint w path = (Inr fp, w1)"
    by (auto simp: check_cache_node_def generate_collection_name_def then_do_def
        split: prod.splits sum.splits)
  let ?name = "''pdf_'' @ take 24 (sha256 fp)"
  let ?pdir = "INDEX_ROOT @ ''/'' @ ?name"
  from assms p f obtain valid where
    v: "is_index_valid w1 ?name ?pdir path (chunk_size st) (chunk_overlap st) (embed_model st)
          = (Inr valid, w')"
    and s: "st' = add_step (if valid \<and> \<not> (case force_rebuild st of None \<Rightarrow> False | Some b \<Rightarrow> b)
                            then [CHR 0xE2, CHR 0x9C, CHR 0x93] @ '' Found valid cached index''
                            else [CHR 0xE2, CHR 0x9C, CHR 0x97] @ '' No valid cache found'')
                   (st\<lparr>collection_name := Some ?name, persist_dir := Some ?pdir,
                       cache_hit := Some (valid \<and> \<not> (case force_rebuild st of None \<Rightarrow> False | Some b \<Rightarrow> b))\<rparr>)"
    by (auto simp: check_cache_node_def generate_collection_name_def then_do_def Let_def
        split: prod.splits sum.splits)
  have "(\<not> (case force_rebuild st of None \<Rightarrow> False | Some b \<Rightarrow> b)) = (force_rebuild st \<noteq> Some True)"
    by (cases "force_rebuild st") auto
  with s have "cache_hit st' = Some (valid \<and> force_rebuild st \<noteq> Some True)"
    "collection_name st' = Some ?name" "persist_dir st' = Some ?pdir"
    by (simp_all add: add_step_def)
  with p f v show ?thesis by blast
qed



lemma is_index_valid_hit:
  assumes "pdir \<in> dirs w" "\<not> backend_fails w OpList" "collections w pdir name \<noteq> None"
    "meta_files w pdir = Some (MetaDict saved)" "fst (file_fingerprint w path) = Inr fp"
    "d_pdf_fingerprint saved = Some fp" "d_chunk_size saved = Some cs"
    "d_chunk_overlap saved = Some co" "d_embedding_model saved = Some em"
  shows "\<exists>w'. is_index_valid w name pdir path cs co em = (Inr True, w')"
proof -
  let ?w1 = "emit (EvBackend OpList pdir []) (get_or_create_client w pdir)"
  have same: "fst (file_fingerprint ?w1 path) = fst (file_fingerprint w path)"
    by (rule file_fingerprint_cong) (simp_all add: emit_def get_or_create_client_def)
  then obtain w3 where f: "file_fingerprint ?w1 path = (Inr fp, w3)"
    using assms(5) by (metis prod.collapse)
  have flds: "meta_files ?w1 = meta_files w" "collections ?w1 = collections w"
    "backend_fails ?w1 = backend_fails w"
    by (simp_all add: emit_def get_or_create_client_def)
  have l: "load_metadata ?w1 pdir = (Inr (Some (MetaDict saved)), ?w1)"
    using assms(4) flds by (simp add: load_metadata_def)
  have g: "get_index_metadata ?w1 path cs co em =
             (Inr \<lparr>d_pdf_fingerprint = Some fp, d_chunk_size = Some cs,
                   d_chunk_overlap = Some co, d_embedding_model = Some em,
                   d_format = Some ''v2'', d_collection_name = None\<rparr>, w3)"
    using f by (simp add: get_index_metadata_def then_do_def)
  have "is_index_valid w name pdir path cs co em = (Inr True, w3)"
    using assms(1,2,3,6,7,8,9) flds l g
    by (simp add: is_index_valid_def Let_def then_do_def)
  then show ?thesis by blast
qed

lemma check_cache_node_hit:
  assumes "pdf_path st = Some path" "fst (file_fingerprint w path) = Inr fp"
    "name = ''pdf_'' @ take 24 (sha256 fp)" "pdir = INDEX_ROOT @ ''/'' @ name"
    "pdir \<in> dirs w" "\<not> backend_fails w OpList" "collections w pdir name \<noteq> None"
    "meta_files w pdir = Some (MetaDict saved)"
    "d_pdf_fingerprint saved = Some fp" "d_chunk_size saved = Some (chunk_size st)"
    "d_chunk_overlap saved = Some (chunk_overlap st)"
    "d_embedding_model saved = Some (embed_model st)"
    "force_rebuild st \<noteq> Some True"
  shows "\<exists>st' w'. check_cache_node w st = (Inr st', w') \<and> cache_hit st' = Some True"
proof -
  obtain w1 where f: "file_fingerprint w path = (Inr fp, w1)"
    using assms(2) by (metis prod.collapse)
  have fr: "meta_files w1 = meta_files w" "collections w1 = collections w" "dirs w1 = dirs w"
    "backend_fails w1 = backend_fails w"
    using file_fingerprint_frame [OF f] by simp_all
  have again: "fst (file_fingerprint w1 path) = Inr fp"
    using file_fingerprint_idem [OF f] by simp
  have "\<exists>w'. is_index_valid w1 name pdir path (chunk_size st) (chunk_overlap st) (embed_model st)
          = (Inr True, w')"
    by (rule is_index_valid_hit [where saved = saved and fp = fp])
       (use assms fr again in simp_all)
  then obtain w' where v: "is_index_valid w1 name pdir path (chunk_size st) (chunk_overlap st)
       (embed_model st) = (Inr True, w')" by blast
  have n: "\<not> (case force_rebuild st of None \<Rightarrow> False | Some b \<Rightarrow> b)"
    using assms(13) by (cases "force_rebuild st") auto
  show ?thesis
    using assms(1,3,4) f v n
    by (simp add: check_cache_node_def generate_collection_name_def then_do_def Let_def add_step_def)
qed




lemma file_fingerprint_returns:
  assumes "doc_files w path = Some f"
  shows "\<exists>fp w1. file_fingerprint w path = (Inr fp, w1)"
  using assms
  by (auto simp: file_fingerprint_def Let_def split: option.splits cache_file.splits)



lemma indexed_world_fields:
  "doc_files indexed_world ''report.pdf'' = Some report_pdf"
  "dirs indexed_world = {''.indices/pdf_annual report''}"
  "meta_files indexed_world d =
     (if d = ''.indices/pdf_annual report'' then Some (MetaDict report_descriptor) else None)"
  "collections indexed_world ''.indices/pdf_annual report'' ''pdf_annual report''
     = Some report_chunks"
  "backend_fails indexed_world b = False"
  by (simp_all add: indexed_world_def quiet_world_def)

lemma report_request_fields:
  "pdf_path report_request = Some ''report.pdf''" "chunk_size report_request = 1000"
  "chunk_overlap report_request = 150" "embed_model report_request = ''m1''"
  "force_rebuild report_request = Some False"
  by (simp_all add: report_request_def input_state_def)


section \<open>The edge after the router\<close>

text \<open>
  C6: with an intent among \<open>rag\<close>, \<open>weather\<close> and \<open>unknown\<close>, the edge after the router leads
  to the unknown handler exactly when the intent is \<open>unknown\<close>, or is \<open>rag\<close> with no document
  (\<open>pdf_path\<close> is \<open>None\<close> or empty). In the second case the run from there enters the unknown
  handler and nothing else: the trace grows by that one entry, so neither the cache check
  nor the loader nor the backend is reached.
\<close>

theorem rag_without_document_routes_to_unknown:
  assumes "agent_type st = Some a" and "a \<in> {''rag'', ''weather'', ''unknown''}"
  shows "(next_node Router st = Inr Unknown
          \<longleftrightarrow> (a = ''unknown'' \<or> (a = ''rag'' \<and> \<not> truthy (pdf_path st))))
       \<and> (a = ''rag'' \<and> \<not> truthy (pdf_path st) \<longrightarrow>
            next_node Router st \<noteq> Inr CheckCache
            \<and> (\<exists>st'. run Unknown w st = (Inr st', emit (EvNode Unknown) w)))"
  using assms
  by (auto simp: next_node_def route_after_classification_def run.simps [of Unknown]
      run.simps [of END] exec_node_def unknown_node_def Let_def)

theorem rag_without_document_routes_to_unknown_witness:
  "agent_type (report_request\<lparr>pdf_path := None, agent_type := Some ''rag''\<rparr>) = Some ''rag''
   \<and> \<not> truthy (pdf_path (report_request\<lparr>pdf_path := None, agent_type := Some ''rag''\<rparr>))
   \<and> next_node Router (report_request\<lparr>pdf_path := None, agent_type := Some ''rag''\<rparr>) = Inr Unknown
   \<and> next_node Router (report_request\<lparr>pdf_path := None, agent_type := Some ''rag''\<rparr>)
       \<noteq> Inr CheckCache
   \<and> (\<exists>st'. run Unknown quiet_world (report_request\<lparr>pdf_path := None, agent_type := Some ''rag''\<rparr>)
              = (Inr st', emit (EvNode Unknown) quiet_world))"
proof -
  let ?st = "report_request\<lparr>pdf_path := None, agent_type := Some ''rag''\<rparr>"
  have a: "agent_type ?st = Some ''rag''" by simp
  have b: "''rag'' \<in> {''rag'', ''weather'', ''unknown''}" by simp
  have c: "\<not> truthy (pdf_path ?st)" by (simp add: truthy_def)
  show ?thesis
    using rag_without_document_routes_to_unknown [OF a b, of quiet_world] a c by simp
qed

section \<open>The quick key\<close>

lemma digit_char_code: "d < 10 \<Longrightarrow> (of_char (digit_char d) :: nat) = 48 + d"
  by (simp add: digit_char_def)

lemma str_nat_digits: "c \<in> set (str_nat n) \<Longrightarrow> 48 \<le> (of_char c :: nat) \<and> (of_char c :: nat) \<le> 57"
proof (induction n arbitrary: c rule: str_nat.induct)
  case (1 n)
  show ?case
  proof (cases "n < 10")
    case True
    then have "str_nat n = [digit_char n]" by (simp add: str_nat.simps)
    with 1(2) have "c = digit_char n" by simp
    then show ?thesis using True digit_char_code [of n] by simp
  next
    case False
    then have e: "str_nat n = str_nat (n div 10) @ [digit_char (n mod 10)]"
      by (subst str_nat.simps) simp
    with 1(2) consider "c \<in> set (str_nat (n div 10))" | "c = digit_char (n mod 10)" by auto
    then show ?thesis
    proof cases
      case 1
      then show ?thesis using "1.IH" False by simp
    next
      case 2
      then show ?thesis using digit_char_code [of "n mod 10"] by simp
    qed
  qed
qed

lemma str_nat_value: "foldl (\<lambda>a c. 10 * a + ((of_char c :: nat) - 48)) 0 (str_nat n) = n"
proof (induction n rule: str_nat.induct)
  case (1 n)
  show ?case
  proof (cases "n < 10")
    case True
    then show ?thesis by (simp add: str_nat.simps [of n] digit_char_code)
  next
    case False
    then have e: "str_nat n = str_nat (n div 10) @ [digit_char (n mod 10)]"
      by (subst str_nat.simps) simp
    show ?thesis using 1 False by (simp add: e digit_char_code)
  qed
qed

lemma str_nat_inj: "str_nat m = str_nat n \<Longrightarrow> m = n"
  by (metis str_nat_value)

lemma str_nat_nonempty: "str_nat n \<noteq> []"
  by (subst str_nat.simps) simp

lemma str_int_inj: "str_int i = str_int j \<Longrightarrow> i = j"
proof -
  assume e: "str_int i = str_int j"
  have nd: "\<And>n. hd (str_nat n) \<noteq> CHR ''-''"
  proof
    fix n assume h: "hd (str_nat n) = CHR ''-''"
    have "hd (str_nat n) \<in> set (str_nat n)" using str_nat_nonempty by simp
    from str_nat_digits [OF this] h show False by simp
  qed
  consider "i < 0" "j < 0" | "i < 0" "\<not> j < 0" | "\<not> i < 0" "j < 0" | "\<not> i < 0" "\<not> j < 0" by blast
  then show ?thesis
  proof cases
    case 1
    with e have "str_nat (nat (- i)) = str_nat (nat (- j))" by (simp add: str_int_def)
    then have "nat (- i) = nat (- j)" by (rule str_nat_inj)
    with 1 show ?thesis by simp
  next
    case 2
    with e have "CHR ''-'' # str_nat (nat (- i)) = str_nat (nat j)" by (simp add: str_int_def)
    then have "hd (str_nat (nat j)) = CHR ''-''" by (metis list.sel(1))
    with nd show ?thesis by blast
  next
    case 3
    with e have "str_nat (nat i) = CHR ''-'' # str_nat (nat (- j))" by (simp add: str_int_def)
    then have "hd (str_nat (nat i)) = CHR ''-''" by (metis list.sel(1))
    with nd show ?thesis by blast
  next
    case 4
    with e have "str_nat (nat i) = str_nat (nat j)" by (simp add: str_int_def)
    then have "nat i = nat j" by (rule str_nat_inj)
    with 4 show ?thesis by simp
  qed
qed

lemma split_at_separator:
  assumes "u @ s # x = v @ s # y" "s \<notin> set u" "s \<notin> set v"
  shows "u = v \<and> x = y"
  using assms
proof (induction u arbitrary: v)
  case Nil
  then show ?case by (cases v) auto
next
  case (Cons a u)
  then show ?case by (cases v) auto
qed

lemma quick_key_inj:
  assumes "str_nat m @ ''_'' @ str_int i = str_nat n @ ''_'' @ str_int j"
  shows "m = n \<and> i = j"
proof -
  have u: "\<And>k. CHR ''_'' \<notin> set (str_nat k)"
  proof
    fix k assume "CHR ''_'' \<in> set (str_nat k)"
    from str_nat_digits [OF this] show False by simp
  qed
  from assms have "str_nat m @ CHR ''_'' # str_int i = str_nat n @ CHR ''_'' # str_int j" by simp
  from split_at_separator [OF this u u] show ?thesis
    using str_nat_inj str_int_inj by blast
qed

lemma file_fingerprint_cached:
  assumes "doc_files w path = Some f"
    and "fp_cache_files w (''.cache_'' @ md5_hex w path @ ''.json'') = Some (CacheDict cached)"
    and "quick_key cached = str_nat (length (file_bytes f)) @ ''_'' @ str_int (st_mtime f)"
  shows "file_fingerprint w path = (Inr cached, w)"
  using assms by (simp add: file_fingerprint_def Let_def)

lemma file_fingerprint_rehash:
  assumes "doc_files w path = Some f"
    and "\<And>cached. fp_cache_files w (''.cache_'' @ md5_hex w path @ ''.json'') = Some (CacheDict cached)
           \<Longrightarrow> quick_key cached \<noteq> str_nat (length (file_bytes f)) @ ''_'' @ str_int (st_mtime f)"
  shows "fst (file_fingerprint w path) =
           Inr \<lparr>sha256 = sha256_hex w (file_bytes f), fp_size = length (file_bytes f),
                fp_mtime = st_mtime f,
                quick_key = str_nat (length (file_bytes f)) @ ''_'' @ str_int (st_mtime f)\<rparr>"
  using assms
  by (auto simp: file_fingerprint_def Let_def split: option.splits cache_file.splits)

text \<open>
  C2, as amended: \<open>file_fingerprint\<close> returns the hash of the current content when the cache
  file is absent or unusable, and when the cached quick key was made from another size or
  another whole second of modification. When the cached quick key equals the current one,
  the cached fingerprint is returned as it is, without reading the content.
\<close>

theorem fingerprint_rehashes_unless_quick_key_matches:
  assumes "doc_files w path = Some f"
  shows "\<exists>fp w'. file_fingerprint w path = (Inr fp, w')
     \<and> ((\<forall>cached. fp_cache_files w (''.cache_'' @ md5_hex w path @ ''.json'')
                      \<noteq> Some (CacheDict cached))
          \<longrightarrow> sha256 fp = sha256_hex w (file_bytes f))
     \<and> (\<forall>cached n t. fp_cache_files w (''.cache_'' @ md5_hex w path @ ''.json'')
                        = Some (CacheDict cached)
            \<and> quick_key cached = str_nat n @ ''_'' @ str_int t
            \<and> (n \<noteq> length (file_bytes f) \<or> t \<noteq> st_mtime f)
          \<longrightarrow> sha256 fp = sha256_hex w (file_bytes f))
     \<and> (\<forall>cached. fp_cache_files w (''.cache_'' @ md5_hex w path @ ''.json'')
                      = Some (CacheDict cached)
            \<and> quick_key cached = str_nat (length (file_bytes f)) @ ''_'' @ str_int (st_mtime f)
          \<longrightarrow> fp = cached)"
proof -
  let ?cf = "''.cache_'' @ md5_hex w path @ ''.json''"
  let ?quick = "str_nat (length (file_bytes f)) @ ''_'' @ str_int (st_mtime f)"
  from file_fingerprint_returns [OF assms] obtain fp w' where
    r: "file_fingerprint w path = (Inr fp, w')" by blast
  have a: "(\<forall>cached. fp_cache_files w ?cf \<noteq> Some (CacheDict cached))
             \<longrightarrow> sha256 fp = sha256_hex w (file_bytes f)"
  proof
    assume "\<forall>cached. fp_cache_files w ?cf \<noteq> Some (CacheDict cached)"
    then have "fst (file_fingerprint w path) =
           Inr \<lparr>sha256 = sha256_hex w (file_bytes f), fp_size = length (file_bytes f),
                fp_mtime = st_mtime f, quick_key = ?quick\<rparr>"
      by (intro file_fingerprint_rehash [OF assms]) simp
    with r show "sha256 fp = sha256_hex w (file_bytes f)" by simp
  qed
  have b: "\<forall>cached n t. fp_cache_files w ?cf = Some (CacheDict cached)
            \<and> quick_key cached = str_nat n @ ''_'' @ str_int t
            \<and> (n \<noteq> length (file_bytes f) \<or> t \<noteq> st_mtime f)
          \<longrightarrow> sha256 fp = sha256_hex w (file_bytes f)"
  proof (intro allI impI)
    fix cached n t
    assume h: "fp_cache_files w ?cf = Some (CacheDict cached)
            \<and> quick_key cached = str_nat n @ ''_'' @ str_int t
            \<and> (n \<noteq> length (file_bytes f) \<or> t \<noteq> st_mtime f)"
    then have "quick_key cached \<noteq> ?quick" using quick_key_inj by metis
    with h have "fst (file_fingerprint w path) =
           Inr \<lparr>sha256 = sha256_hex w (file_bytes f), fp_size = length (file_bytes f),
                fp_mtime = st_mtime f, quick_key = ?quick\<rparr>"
      by (intro file_fingerprint_rehash [OF assms]) simp
    with r show "sha256 fp = sha256_hex w (file_bytes f)" by simp
  qed
  have c: "\<forall>cached. fp_cache_files w ?cf = Some (CacheDict cached) \<and> quick_key cached = ?quick
          \<longrightarrow> fp = cached"
    using r file_fingerprint_cached [OF assms] by auto
  from r a b c show ?thesis by blast
qed

lemma stale_world_fields:
  "doc_files stale_world ''report.pdf'' = Some edited_pdf"
  "fp_cache_files stale_world (''.cache_'' @ md5_hex stale_world ''report.pdf'' @ ''.json'')
     = Some (CacheDict report_fp)"
  "sha256_hex stale_world = id"
  "dirs stale_world = {''.indices/pdf_annual report''}"
  "meta_files stale_world d =
     (if d = ''.indices/pdf_annual report'' then Some (MetaDict report_descriptor) else None)"
  "collections stale_world ''.indices/pdf_annual report'' ''pdf_annual report''
     = Some report_chunks"
  "backend_fails stale_world b = False"
  by (simp_all add: stale_world_def indexed_world_def quiet_world_def)

lemma edited_quick:
  "str_nat (length (file_bytes edited_pdf)) @ ''_'' @ str_int (st_mtime edited_pdf) = quick_key report_fp"
proof -
  have l: "length (file_bytes edited_pdf) = 13" "st_mtime edited_pdf = 1700000000"
    by (simp_all add: edited_pdf_def)
  show ?thesis unfolding l report_numbers by (simp add: report_fp_def)
qed

lemma stale_fp: "file_fingerprint stale_world ''report.pdf'' = (Inr report_fp, stale_world)"
  by (rule file_fingerprint_cached [OF stale_world_fields(1) stale_world_fields(2)])
     (rule edited_quick [symmetric])

text \<open>
  C2 as stated fails: the bytes differ, size and modification second are the same, and
  \<open>file_fingerprint\<close> returns the hash of the old bytes; the gate then reports a hit.
\<close>

theorem stale_hash_under_same_quick_key:
  "file_bytes edited_pdf \<noteq> file_bytes report_pdf
   \<and> length (file_bytes edited_pdf) = length (file_bytes report_pdf)
   \<and> st_mtime edited_pdf = st_mtime report_pdf
   \<and> doc_files stale_world ''report.pdf'' = Some edited_pdf
   \<and> fst (file_fingerprint stale_world ''report.pdf'') = Inr report_fp
   \<and> sha256 report_fp = sha256_hex stale_world (file_bytes report_pdf)
   \<and> sha256 report_fp \<noteq> sha256_hex stale_world (file_bytes edited_pdf)
   \<and> map_sum id cache_hit (fst (check_cache_node stale_world report_request)) = Inr (Some True)"
proof -
  have "\<exists>st' w'. check_cache_node stale_world report_request = (Inr st', w')
          \<and> cache_hit st' = Some True"
    by (rule check_cache_node_hit [where fp = report_fp and saved = report_descriptor
          and path = "''report.pdf''" and name = "''pdf_annual report''"
          and pdir = "''.indices/pdf_annual report''"])
       (simp_all add: stale_fp stale_world_fields report_request_fields report_descriptor_def
          report_fp_def INDEX_ROOT_def)
  then have h: "map_sum id cache_hit (fst (check_cache_node stale_world report_request))
                  = Inr (Some True)" by auto
  show ?thesis
    using h by (simp add: stale_fp stale_world_fields edited_pdf_def report_pdf_def report_fp_def)
qed

theorem fingerprint_rehashes_unless_quick_key_matches_witness:
  "doc_files stale_world ''report.pdf'' = Some edited_pdf
   \<and> fst (file_fingerprint stale_world ''report.pdf'') = Inr report_fp
   \<and> doc_files touched_world ''report.pdf'' = Some touched_pdf
   \<and> fp_cache_files touched_world (''.cache_'' @ md5_hex touched_world ''report.pdf'' @ ''.json'')
       = Some (CacheDict report_fp)
   \<and> quick_key report_fp = str_nat 13 @ ''_'' @ str_int 1700000000
   \<and> st_mtime touched_pdf \<noteq> 1700000000
   \<and> map_sum id sha256 (fst (file_fingerprint touched_world ''report.pdf''))
       = Inr (sha256_hex touched_world (file_bytes touched_pdf))
   \<and> doc_files indexed_world ''report.pdf'' = Some report_pdf
   \<and> map_sum id sha256 (fst (file_fingerprint indexed_world ''report.pdf''))
       = Inr (sha256_hex indexed_world (file_bytes report_pdf))"
proof -
  have t1: "doc_files touched_world ''report.pdf'' = Some touched_pdf"
    and t2: "fp_cache_files touched_world
               (''.cache_'' @ md5_hex touched_world ''report.pdf'' @ ''.json'')
             = Some (CacheDict report_fp)"
    by (simp_all add: touched_world_def stale_world_def indexed_world_def quiet_world_def)
  have q: "quick_key report_fp = str_nat 13 @ ''_'' @ str_int 1700000000"
    unfolding report_numbers by (simp add: report_fp_def)
  have m: "st_mtime touched_pdf \<noteq> 1700000000" by (simp add: touched_pdf_def)
  have i2: "\<And>c. fp_cache_files indexed_world
               (''.cache_'' @ md5_hex indexed_world ''report.pdf'' @ ''.json'') \<noteq> Some (CacheDict c)"
    by (simp add: indexed_world_def quiet_world_def)
  from fingerprint_rehashes_unless_quick_key_matches [OF stale_world_fields(1)]
  have a: "fst (file_fingerprint stale_world ''report.pdf'') = Inr report_fp"
    using stale_world_fields(2) edited_quick by fastforce
  from fingerprint_rehashes_unless_quick_key_matches [OF t1]
  have b: "map_sum id sha256 (fst (file_fingerprint touched_world ''report.pdf''))
             = Inr (sha256_hex touched_world (file_bytes touched_pdf))"
    using t2 q m by fastforce
  from fingerprint_rehashes_unless_quick_key_matches [OF indexed_world_fields(1)]
  have c: "map_sum id sha256 (fst (file_fingerprint indexed_world ''report.pdf''))
             = Inr (sha256_hex indexed_world (file_bytes report_pdf))"
    using i2 by fastforce
  show ?thesis using a b c t1 t2 q m stale_world_fields(1) indexed_world_fields(1) by simp
qed

section \<open>Failures in the router\<close>

lemma route_to_agent_intents:
  assumes "route_to_agent w q avail = (Inr a, w')"
  shows "a \<in> {''rag'', ''weather'', ''unknown''}"
  using assms
  by (auto simp: route_to_agent_def then_do_def Let_def
      split: if_splits prod.splits sum.splits)

lemma route_to_agent_classifier_failure:
  assumes "\<not> list_ex (\<lambda>word. str_in word (lower q)) weather_keywords"
    and "extract_all_pdf_contexts w ''uploaded_pdfs'' LLM_MODEL = (Inr ctx, w1)" and "ctx \<noteq> []"
    and "llm w1 (Classify (take 3000 ctx) q) = Inl e"
  shows "fst (route_to_agent w q True) = Inr ''unknown''"
  using assms by (simp add: route_to_agent_def then_do_def invoke_def)

lemma no_keyword_in_summarize:
  "\<not> list_ex (\<lambda>word. str_in word (lower ''Summarize section 2'')) weather_keywords"
  by code_simp

text \<open>
  C4 fails on the code at the call that derives the document context, which is outside
  the router's \<open>try\<close>: with a document available and no keyword in the question, a missing
  folder \<open>uploaded_pdfs\<close>, a folder without PDF files, and a document the loader rejects each
  leave \<open>route_to_agent\<close> as an exception.
\<close>

theorem router_propagates_context_failure:
  "route_to_agent quiet_world ''Summarize section 2'' True = (Inl FileNotFoundError, quiet_world)
   \<and> route_to_agent (quiet_world\<lparr>pdf_folders := [''uploaded_pdfs'' \<mapsto> []]\<rparr>)
         ''Summarize section 2'' True
       = (Inl ValueError, quiet_world\<lparr>pdf_folders := [''uploaded_pdfs'' \<mapsto> []]\<rparr>)
   \<and> fst (route_to_agent (quiet_world\<lparr>pdf_folders := [''uploaded_pdfs'' \<mapsto> [''report.pdf'']]\<rparr>)
         ''Summarize section 2'' True)
       = Inl LoaderError"
  by (simp add: route_to_agent_def no_keyword_in_summarize extract_all_pdf_contexts_def
      quiet_world_def then_do_def extract_pdf_context_def load_pdf_def emit_def Let_def)

section \<open>Building the index\<close>

lemma build_qdrant_frame:
  assumes "build_qdrant_vectorstore w sp name pdir em = (r, w')"
  shows "doc_files w' = doc_files w \<and> fp_cache_files w' = fp_cache_files w
         \<and> cache_writable w' = cache_writable w \<and> md5_hex w' = md5_hex w
         \<and> sha256_hex w' = sha256_hex w \<and> meta_files w' = meta_files w
         \<and> dirs w' = dirs w \<and> backend_fails w' = backend_fails w"
  using assms
  by (auto simp: build_qdrant_vectorstore_def Let_def then_do_def emit_def
      get_or_create_client_def set_collection_def split: sum.splits if_splits)

lemma build_qdrant_success:
  assumes "build_qdrant_vectorstore w sp name pdir em = (Inr vs, w')"
  shows "collections w' pdir name = Some sp"
  using assms
  by (auto simp: build_qdrant_vectorstore_def Let_def then_do_def emit_def
      get_or_create_client_def set_collection_def split: sum.splits if_splits)


lemma build_index_node_success:
  assumes "build_index_node w st = (Inr st', w')"
  shows "\<exists>sp name pdir path fp.
           splits st = Some sp \<and> collection_name st = Some name \<and> persist_dir st = Some pdir
         \<and> pdf_path st = Some path \<and> collections w' pdir name = Some sp \<and> pdir \<in> dirs w'
         \<and> meta_files w' pdir =
             Some (MetaDict \<lparr>d_pdf_fingerprint = Some fp, d_chunk_size = Some (chunk_size st),
                             d_chunk_overlap = Some (chunk_overlap st),
                             d_embedding_model = Some (embed_model st), d_format = Some ''v2'',
                             d_collection_name = Some name\<rparr>)
         \<and> fst (file_fingerprint w path) = Inr fp \<and> fst (file_fingerprint w' path) = Inr fp
         \<and> backend_fails w' = backend_fails w"
proof -
  from assms obtain sp name pdir path where
    s: "splits st = Some sp" "collection_name st = Some name" "persist_dir st = Some pdir"
    by (auto simp: build_index_node_def subscript_def then_do_def split: option.splits)
  from assms s obtain vs wa where
    b: "build_qdrant_vectorstore w sp name pdir (embed_model st) = (Inr vs, wa)"
    by (auto simp: build_index_node_def subscript_def then_do_def split: prod.splits sum.splits)
  from assms s b obtain path where p: "pdf_path st = Some path"
    by (auto simp: build_index_node_def subscript_def then_do_def split: option.splits)
  from assms s b p obtain fp wb where
    f: "file_fingerprint wa path = (Inr fp, wb)"
    and w': "w' = save_metadata wb pdir
               \<lparr>d_pdf_fingerprint = Some fp, d_chunk_size = Some (chunk_size st),
                d_chunk_overlap = Some (chunk_overlap st),
                d_embedding_model = Some (embed_model st), d_format = Some ''v2'',
                d_collection_name = Some name\<rparr>"
    by (auto simp: build_index_node_def subscript_def then_do_def get_index_metadata_def
        split: prod.splits sum.splits)
  note fa = build_qdrant_frame [OF b]
  note fb = file_fingerprint_frame [OF f]
  have c: "collections w' pdir name = Some sp"
    using build_qdrant_success [OF b] fb w' by (simp add: save_metadata_def)
  have d: "pdir \<in> dirs w'" using w' by (simp add: save_metadata_def)
  have m: "meta_files w' pdir =
             Some (MetaDict \<lparr>d_pdf_fingerprint = Some fp, d_chunk_size = Some (chunk_size st),
                             d_chunk_overlap = Some (chunk_overlap st),
                             d_embedding_model = Some (embed_model st), d_format = Some ''v2'',
                             d_collection_name = Some name\<rparr>)"
    using w' by (simp add: save_metadata_def)
  have "fst (file_fingerprint w path) = fst (file_fingerprint wa path)"
    by (rule file_fingerprint_cong) (simp_all add: fa)
  then have f0: "fst (file_fingerprint w path) = Inr fp" using f by simp
  have "fst (file_fingerprint w' path) = fst (file_fingerprint wb path)"
    by (rule file_fingerprint_cong) (simp_all add: w' save_metadata_def)
  then have f1: "fst (file_fingerprint w' path) = Inr fp"
    using file_fingerprint_idem [OF f] by simp
  have bf: "backend_fails w' = backend_fails w" using fa fb w' by (simp add: save_metadata_def)
  from s p c d m f0 f1 bf show ?thesis by blast
qed

lemma is_index_valid_keeps_fingerprint:
  assumes "is_index_valid w name pdir path cs co em = (r, w')"
  shows "fst (file_fingerprint w' path) = fst (file_fingerprint w path)
         \<and> backend_fails w' = backend_fails w"
proof -
  let ?w1 = "emit (EvBackend OpList pdir []) (get_or_create_client w pdir)"
  have same: "fst (file_fingerprint ?w1 path) = fst (file_fingerprint w path)"
    by (rule file_fingerprint_cong) (simp_all add: emit_def get_or_create_client_def)
  have bf: "backend_fails ?w1 = backend_fails w" by (simp add: emit_def get_or_create_client_def)
  obtain r2 w3 where f: "file_fingerprint ?w1 path = (r2, w3)" by (cases "file_fingerprint ?w1 path")
  have after: "fst (file_fingerprint w3 path) = fst (file_fingerprint ?w1 path)"
  proof (cases r2)
    case (Inl e)
    with f have "w3 = ?w1"
      by (auto simp: file_fingerprint_def Let_def split: option.splits cache_file.splits if_splits)
    then show ?thesis by simp
  next
    case (Inr fp)
    with f file_fingerprint_idem [of ?w1 path fp w3] show ?thesis by simp
  qed
  have bf3: "backend_fails w3 = backend_fails ?w1" using file_fingerprint_frame [OF f] by simp
  from assms have "w' = w \<or> w' = ?w1 \<or> w' = w3"
    using f
    by (auto simp: is_index_valid_def Let_def then_do_def load_metadata_def get_index_metadata_def
        split: if_splits option.splits meta_file.splits sum.splits prod.splits)
  then show ?thesis using same after bf bf3 by auto
qed

lemma check_cache_node_frame:
  assumes "check_cache_node w st = (Inr st', w')"
  shows "pdf_path st' = pdf_path st \<and> chunk_size st' = chunk_size st
         \<and> chunk_overlap st' = chunk_overlap st \<and> embed_model st' = embed_model st
         \<and> (\<exists>path fp. pdf_path st = Some path \<and> fst (file_fingerprint w' path) = Inr fp
               \<and> collection_name st' = Some (''pdf_'' @ take 24 (sha256 fp))
               \<and> persist_dir st' = Some (INDEX_ROOT @ ''/'' @ ''pdf_'' @ take 24 (sha256 fp)))
         \<and> backend_fails w' = backend_fails w"
proof -
  from check_cache_node_result [OF assms] obtain path fp w1 valid where
    p: "pdf_path st = Some path" and f: "file_fingerprint w path = (Inr fp, w1)"
    and v: "is_index_valid w1 (''pdf_'' @ take 24 (sha256 fp))
               (INDEX_ROOT @ ''/'' @ ''pdf_'' @ take 24 (sha256 fp)) path
               (chunk_size st) (chunk_overlap st) (embed_model st) = (Inr valid, w')"
    and c: "collection_name st' = Some (''pdf_'' @ take 24 (sha256 fp))"
      "persist_dir st' = Some (INDEX_ROOT @ ''/'' @ ''pdf_'' @ take 24 (sha256 fp))"
    by blast
  have "fst (file_fingerprint w1 path) = Inr fp" using file_fingerprint_idem [OF f] by simp
  then have k: "fst (file_fingerprint w' path) = Inr fp" "backend_fails w' = backend_fails w"
    using is_index_valid_keeps_fingerprint [OF v] file_fingerprint_frame [OF f] by simp_all
  have same: "pdf_path st' = pdf_path st \<and> chunk_size st' = chunk_size st
         \<and> chunk_overlap st' = chunk_overlap st \<and> embed_model st' = embed_model st"
    using assms
    by (auto simp: check_cache_node_def then_do_def Let_def add_step_def
        split: option.splits prod.splits sum.splits)
  from same p k c show ?thesis by blast
qed

lemma load_pdf_node_frame:
  assumes "load_pdf_node w st = (Inr st', w')"
  shows "pdf_path st' = pdf_path st \<and> chunk_size st' = chunk_size st
         \<and> chunk_overlap st' = chunk_overlap st \<and> embed_model st' = embed_model st
         \<and> collection_name st' = collection_name st \<and> persist_dir st' = persist_dir st
         \<and> fst (file_fingerprint w' path) = fst (file_fingerprint w path)
         \<and> backend_fails w' = backend_fails w"
proof -
  from assms have w': "w' = emit (EvLoad (the (pdf_path st))) w"
    by (auto simp: load_pdf_node_def load_pdf_def then_do_def split: option.splits sum.splits)
  have "fst (file_fingerprint w' path) = fst (file_fingerprint w path)"
    by (rule file_fingerprint_cong) (simp_all add: w' emit_def)
  moreover have "backend_fails w' = backend_fails w" by (simp add: w' emit_def)
  ultimately show ?thesis using assms
    by (auto simp: load_pdf_node_def load_pdf_def then_do_def add_step_def
        split: option.splits sum.splits)
qed

lemma split_docs_node_frame:
  assumes "split_docs_node w st = (Inr st', w')"
  shows "pdf_path st' = pdf_path st \<and> chunk_size st' = chunk_size st
         \<and> chunk_overlap st' = chunk_overlap st \<and> embed_model st' = embed_model st
         \<and> collection_name st' = collection_name st \<and> persist_dir st' = persist_dir st
         \<and> w' = w"
  using assms
  by (auto simp: split_docs_node_def split_documents_def subscript_def then_do_def add_step_def
      split: option.splits sum.splits)

text \<open>
  C5: the gate names the collection, the document is loaded and split, and the build
  succeeds (it creates the collection and persists the descriptor). A validity check right
  after it, on the same document with the same three parameters and no forced rebuild,
  returns and reports a hit, provided the backend answers the listing of its collections.
\<close>

theorem fresh_build_then_check_is_hit:
  assumes "check_cache_node w0 rq = (Inr st1, w1)"
    and "load_pdf_node w1 st1 = (Inr st2, w2)"
    and "split_docs_node w2 st2 = (Inr st3, w3)"
    and "build_index_node w3 st3 = (Inr st4, w4)"
    and "\<not> backend_fails w0 OpList"
    and "pdf_path rq' = pdf_path rq" "chunk_size rq' = chunk_size rq"
      "chunk_overlap rq' = chunk_overlap rq" "embed_model rq' = embed_model rq"
    and "force_rebuild rq' \<noteq> Some True"
  shows "\<exists>st5 w5. check_cache_node w4 rq' = (Inr st5, w5) \<and> cache_hit st5 = Some True"
proof -
  from check_cache_node_frame [OF assms(1)] obtain path fp where
    a: "pdf_path st1 = pdf_path rq" "chunk_size st1 = chunk_size rq"
       "chunk_overlap st1 = chunk_overlap rq" "embed_model st1 = embed_model rq"
    and p: "pdf_path rq = Some path" and f1: "fst (file_fingerprint w1 path) = Inr fp"
    and n1: "collection_name st1 = Some (''pdf_'' @ take 24 (sha256 fp))"
            "persist_dir st1 = Some (INDEX_ROOT @ ''/'' @ ''pdf_'' @ take 24 (sha256 fp))"
    and b1: "backend_fails w1 = backend_fails w0"
    by blast
  note l = load_pdf_node_frame [OF assms(2), of path]
  note s = split_docs_node_frame [OF assms(3)]
  have f3: "fst (file_fingerprint w3 path) = Inr fp" using f1 l s by simp
  from build_index_node_success [OF assms(4)] obtain sp name pdir path' fp' where
    b: "splits st3 = Some sp" "collection_name st3 = Some name" "persist_dir st3 = Some pdir"
       "pdf_path st3 = Some path'" "collections w4 pdir name = Some sp" "pdir \<in> dirs w4"
       "meta_files w4 pdir =
             Some (MetaDict \<lparr>d_pdf_fingerprint = Some fp', d_chunk_size = Some (chunk_size st3),
                             d_chunk_overlap = Some (chunk_overlap st3),
                             d_embedding_model = Some (embed_model st3), d_format = Some ''v2'',
                             d_collection_name = Some name\<rparr>)"
       "fst (file_fingerprint w3 path') = Inr fp'" "fst (file_fingerprint w4 path') = Inr fp'"
       "backend_fails w4 = backend_fails w3"
    by blast
  have e: "path' = path" "name = ''pdf_'' @ take 24 (sha256 fp)"
    "pdir = INDEX_ROOT @ ''/'' @ ''pdf_'' @ take 24 (sha256 fp)"
    using b(2,3,4) a(1) p n1 l s by simp_all
  have fpe: "fp' = fp" using b(8) f3 e(1) by simp
  have par: "chunk_size st3 = chunk_size rq'" "chunk_overlap st3 = chunk_overlap rq'"
    "embed_model st3 = embed_model rq'"
    using a l s assms(7,8,9) by simp_all
  have lst: "\<not> backend_fails w4 OpList" using b(10) l s b1 assms(5) by simp
  show ?thesis
    by (rule check_cache_node_hit [where fp = fp and path = path and name = name and pdir = pdir
          and saved = "\<lparr>d_pdf_fingerprint = Some fp', d_chunk_size = Some (chunk_size st3),
                             d_chunk_overlap = Some (chunk_overlap st3),
                             d_embedding_model = Some (embed_model st3), d_format = Some ''v2'',
                             d_collection_name = Some name\<rparr>"])
       (use assms(6,10) p b e fpe par lst in simp_all)
qed

lemma miss_path_runs:
  "\<exists>st1 w1 st2 w2 st3 w3 st4 w4.
      check_cache_node unindexed_world report_request = (Inr st1, w1)
    \<and> cache_hit st1 = Some False
    \<and> load_pdf_node w1 st1 = (Inr st2, w2)
    \<and> split_docs_node w2 st2 = (Inr st3, w3)
    \<and> build_index_node w3 st3 = (Inr st4, w4)"
  by (simp add: check_cache_node_def generate_collection_name_def is_index_valid_def
      file_fingerprint_def load_pdf_node_def load_pdf_def split_docs_node_def split_documents_def
      build_index_node_def build_qdrant_vectorstore_def get_index_metadata_def save_metadata_def
      set_collection_def get_or_create_client_def subscript_def then_do_def emit_def add_step_def
      unindexed_world_def quiet_world_def report_request_def input_state_def Let_def)

theorem fresh_build_then_check_is_hit_witness:
  "\<exists>st1 w1 st2 w2 st3 w3 st4 w4 st5 w5.
      check_cache_node unindexed_world report_request = (Inr st1, w1)
    \<and> cache_hit st1 = Some False
    \<and> load_pdf_node w1 st1 = (Inr st2, w2)
    \<and> split_docs_node w2 st2 = (Inr st3, w3)
    \<and> build_index_node w3 st3 = (Inr st4, w4)
    \<and> \<not> backend_fails unindexed_world OpList
    \<and> force_rebuild report_request \<noteq> Some True
    \<and> check_cache_node w4 report_request = (Inr st5, w5)
    \<and> cache_hit st5 = Some True"
proof -
  from miss_path_runs obtain st1 w1 st2 w2 st3 w3 st4 w4 where
    r: "check_cache_node unindexed_world report_request = (Inr st1, w1)"
       "load_pdf_node w1 st1 = (Inr st2, w2)" "split_docs_node w2 st2 = (Inr st3, w3)"
       "build_index_node w3 st3 = (Inr st4, w4)"
    and m: "cache_hit st1 = Some False"
    by blast
  have l: "\<not> backend_fails unindexed_world OpList"
    by (simp add: unindexed_world_def quiet_world_def)
  have f: "force_rebuild report_request \<noteq> Some True" by (simp add: report_request_fields)
  from fresh_build_then_check_is_hit [OF r l refl refl refl refl f]
  obtain st5 w5 where "check_cache_node w4 report_request = (Inr st5, w5)"
    "cache_hit st5 = Some True" by blast
  with r m l f show ?thesis by blast
qed







section \<open>The top-level query\<close>

lemma strings_eval:
  "strip ''An annual report.'' = ''An annual report.''"
  "lower (strip ''rag'') = ''rag''"
  "take 3000 ''An annual report.'' = ''An annual report.''"
  "upper ''rag'' = ''RAG''"
  by code_simp+

lemma run_raises:
  assumes "n \<noteq> END" and "exec_node n (emit (EvNode n) w) st = (Inl e, w1)"
  shows "run n w st = (Inl e, w1)"
  using assms by (subst run.simps) simp

lemma run_edge_raises:
  assumes "n \<noteq> END" and "exec_node n (emit (EvNode n) w) st = (Inr st1, w1)"
    and "next_node n st1 = Inl e"
  shows "run n w st = (Inl e, w1)"
  using assms by (subst run.simps) simp

lemma run_step:
  assumes "n \<noteq> END" and "exec_node n (emit (EvNode n) w) st = (Inr st1, w1)"
    and "next_node n st1 = Inr n1"
  shows "run n w st = run n1 w1 st1"
  using assms by (subst run.simps) simp

lemma reaches_run:
  assumes "reaches n w st n' w' st'"
  shows "run n w st = run n' w' st'"
  using assms
proof (induction rule: reaches.induct)
  case (start n w st)
  show ?case by simp
next
  case (step n w st n1 w1 st1 st2 w2 n2)
  from run_step [OF step(2,3,4)] step.IH show ?case by simp
qed

lemma weather_node_answers:
  assumes "weather_node w st = (Inr st', w')"
  shows "answer st' \<noteq> None \<and> steps st' \<noteq> []"
  using assms
  by (auto simp: weather_node_def then_do_def add_step_def Let_def
      split: prod.splits sum.splits option.splits if_splits body.splits)

lemma unknown_node_answers:
  assumes "unknown_node w st = (Inr st', w')"
  shows "answer st' \<noteq> None \<and> steps st' \<noteq> []"
  using assms by (auto simp: unknown_node_def add_step_def Let_def)

lemma generate_answer_node_answers:
  assumes "generate_answer_node w st = (Inr st', w')"
  shows "answer st' \<noteq> None \<and> steps st' \<noteq> []"
  using assms
  by (auto simp: generate_answer_node_def then_do_def subscript_def add_step_def
      split: prod.splits sum.splits option.splits)

lemma last_node_answers:
  assumes "next_node n st1 = Inr END" "n \<noteq> END" "exec_node n w st = (Inr st1, w1)"
  shows "answer st1 \<noteq> None \<and> steps st1 \<noteq> []"
proof -
  from assms(1,2) have "n = Weather \<or> n = Unknown \<or> n = Generate"
    by (cases n) (auto simp: next_node_def Let_def split: if_splits sum.splits)
  then show ?thesis
    using assms(3) weather_node_answers unknown_node_answers generate_answer_node_answers
    by (auto simp: exec_node_def)
qed

lemma run_result:
  "run n w st = (Inr st', w') \<Longrightarrow>
     (n = END \<longrightarrow> st' = st) \<and> (n \<noteq> END \<longrightarrow> answer st' \<noteq> None \<and> steps st' \<noteq> [])"
proof (induction n w st rule: run.induct)
  case (1 n w st)
  show ?case
  proof (cases "n = END")
    case True
    with 1(2) show ?thesis by (simp add: run.simps)
  next
    case False
    obtain r w1 where x: "exec_node n (emit (EvNode n) w) st = (r, w1)"
      by (cases "exec_node n (emit (EvNode n) w) st")
    show ?thesis
    proof (cases r)
      case (Inl e)
      with run_raises [OF False] x 1(2) show ?thesis by simp
    next
      case (Inr st1)
      note r1 = this
      show ?thesis
      proof (cases "next_node n st1")
        case (Inl e)
        with run_edge_raises [OF False] x r1 1(2) show ?thesis by simp
      next
        case (Inr n1)
        have eq: "run n w st = run n1 w1 st1" using run_step [OF False] x r1 Inr by simp
        with 1(2) have r2: "run n1 w1 st1 = (Inr st', w')" by simp
        have ih: "(n1 = END \<longrightarrow> st' = st1)
                  \<and> (n1 \<noteq> END \<longrightarrow> answer st' \<noteq> None \<and> steps st' \<noteq> [])"
          using "1.IH" [OF False x [symmetric] r1 Inr r2] by simp
        show ?thesis
        proof (cases "n1 = END")
          case True
          with Inr last_node_answers [OF _ False] x r1 ih show ?thesis using False by auto
        next
          case False
          with ih show ?thesis using \<open>n \<noteq> END\<close> by simp
        qed
      qed
    qed
  qed
qed

text \<open>
  C8, as amended: when \<open>query\<close> returns, its result carries an answer and a step trace
  that is not empty. When a node that the run arrives at raises, \<open>query\<close> raises the same
  exception: nothing catches it, and no result is built.
\<close>

theorem query_returns_result_or_raises:
  "(query w q path csize coverlap emodel topk force = (Inr st', w')
      \<longrightarrow> answer st' \<noteq> None \<and> steps st' \<noteq> [])
   \<and> (reaches Router w (input_state q path csize coverlap emodel topk force) n wn stn
        \<and> n \<noteq> END \<and> exec_node n (emit (EvNode n) wn) stn = (Inl e, w1)
      \<longrightarrow> query w q path csize coverlap emodel topk force = (Inl e, w1))"
proof (intro conjI impI)
  assume "query w q path csize coverlap emodel topk force = (Inr st', w')"
  then have "run Router w (input_state q path csize coverlap emodel topk force) = (Inr st', w')"
    by (simp add: query_def)
  from run_result [OF this] show "answer st' \<noteq> None" "steps st' \<noteq> []" by simp_all
next
  assume h: "reaches Router w (input_state q path csize coverlap emodel topk force) n wn stn
        \<and> n \<noteq> END \<and> exec_node n (emit (EvNode n) wn) stn = (Inl e, w1)"
  then have "run Router w (input_state q path csize coverlap emodel topk force) = run n wn stn"
    using reaches_run by blast
  also have "\<dots> = (Inl e, w1)" using h run_raises by blast
  finally show "query w q path csize coverlap emodel topk force = (Inl e, w1)"
    by (simp add: query_def)
qed

lemma no_keyword_in_hello:
  "\<not> list_ex (\<lambda>word. str_in word (lower ''Hello'')) weather_keywords"
  by code_simp

lemma corrupt_run:
  "\<exists>st1 w1 w2.
      exec_node Router (emit (EvNode Router) corrupt_world)
        (input_state ''Summarize section 2'' (Some ''report.pdf'') 1000 150 ''m1'' 4 False)
        = (Inr st1, w1)
    \<and> next_node Router st1 = Inr CheckCache
    \<and> exec_node CheckCache (emit (EvNode CheckCache) w1) st1 = (Inl JSONDecodeError, w2)"
  by (simp add: exec_node_def router_node_def route_to_agent_def no_keyword_in_summarize
      extract_all_pdf_contexts_def extract_pdf_context_def invoke_def emit_def then_do_def
      corrupt_world_def with_rag_router_def indexed_world_def quiet_world_def LLM_MODEL_def
      strings_eval input_state_def add_step_def truthy_def next_node_def
      route_after_classification_def check_cache_node_def generate_collection_name_def
      file_fingerprint_def report_pdf_def is_index_valid_def get_or_create_client_def
      load_metadata_def INDEX_ROOT_def Let_def)

lemma unreadable_run:
  "fst (query unreadable_world ''Summarize section 2'' (Some ''report.pdf'') 1000 150 ''m1'' 4 False)
     = Inl LoaderError"
  by (simp add: query_def run.simps [of Router] run.simps [of CheckCache] run.simps [of LoadPdf]
      exec_node_def router_node_def route_to_agent_def no_keyword_in_summarize
      extract_all_pdf_contexts_def extract_pdf_context_def invoke_def emit_def then_do_def
      unreadable_world_def with_rag_router_def quiet_world_def LLM_MODEL_def
      strings_eval input_state_def add_step_def truthy_def next_node_def
      route_after_classification_def check_cache_node_def generate_collection_name_def
      file_fingerprint_def report_pdf_def is_index_valid_def should_build_index_def
      load_pdf_node_def load_pdf_def INDEX_ROOT_def Let_def)

lemma hello_run:
  "\<exists>st' w'. query quiet_world ''Hello'' None 1000 150 ''m1'' 4 False = (Inr st', w')"
  by (simp add: query_def run.simps [of Router] run.simps [of Unknown] run.simps [of END]
      exec_node_def router_node_def route_to_agent_def no_keyword_in_hello
      emit_def then_do_def input_state_def add_step_def truthy_def next_node_def
      route_after_classification_def unknown_node_def Let_def)

text \<open>
  C8 as stated fails: with a \<open>meta.json\<close> that is no JSON, and with a document the loader
  rejects, a question the router classifies as \<open>rag\<close> makes \<open>query\<close> raise.
\<close>

theorem query_raises_on_invalid_metadata:
  "fst (query corrupt_world ''Summarize section 2'' (Some ''report.pdf'') 1000 150 ''m1'' 4 False)
     = Inl JSONDecodeError
   \<and> fst (query unreadable_world ''Summarize section 2'' (Some ''report.pdf'') 1000 150 ''m1'' 4 False)
     = Inl LoaderError"
proof -
  from corrupt_run obtain st1 w1 w2 where
    a: "exec_node Router (emit (EvNode Router) corrupt_world)
          (input_state ''Summarize section 2'' (Some ''report.pdf'') 1000 150 ''m1'' 4 False)
          = (Inr st1, w1)"
    and b: "next_node Router st1 = Inr CheckCache"
    and c: "exec_node CheckCache (emit (EvNode CheckCache) w1) st1 = (Inl JSONDecodeError, w2)"
    by blast
  have "run Router corrupt_world
          (input_state ''Summarize section 2'' (Some ''report.pdf'') 1000 150 ''m1'' 4 False)
        = run CheckCache w1 st1"
    by (rule run_step [OF _ a b]) simp
  also have "\<dots> = (Inl JSONDecodeError, w2)" by (rule run_raises [OF _ c]) simp
  finally show ?thesis using unreadable_run by (simp add: query_def)
qed

theorem query_returns_result_or_raises_witness:
  "(\<exists>st' w'. query quiet_world ''Hello'' None 1000 150 ''m1'' 4 False = (Inr st', w')
       \<and> answer st' \<noteq> None \<and> steps st' \<noteq> [])
   \<and> (\<exists>wn stn w1.
         reaches Router corrupt_world
           (input_state ''Summarize section 2'' (Some ''report.pdf'') 1000 150 ''m1'' 4 False)
           CheckCache wn stn
       \<and> CheckCache \<noteq> END
       \<and> exec_node CheckCache (emit (EvNode CheckCache) wn) stn = (Inl JSONDecodeError, w1)
       \<and> query corrupt_world ''Summarize section 2'' (Some ''report.pdf'') 1000 150 ''m1'' 4 False
           = (Inl JSONDecodeError, w1))"
proof -
  from hello_run obtain st' w' where
    h: "query quiet_world ''Hello'' None 1000 150 ''m1'' 4 False = (Inr st', w')" by blast
  from query_returns_result_or_raises [of quiet_world "''Hello''" None 1000 150 "''m1''" 4 False st' w']
    h have h2: "answer st' \<noteq> None \<and> steps st' \<noteq> []" by blast
  from corrupt_run obtain st1 w1 w2 where
    a: "exec_node Router (emit (EvNode Router) corrupt_world)
          (input_state ''Summarize section 2'' (Some ''report.pdf'') 1000 150 ''m1'' 4 False)
          = (Inr st1, w1)"
    and b: "next_node Router st1 = Inr CheckCache"
    and c: "exec_node CheckCache (emit (EvNode CheckCache) w1) st1 = (Inl JSONDecodeError, w2)"
    by blast
  have r: "reaches Router corrupt_world
           (input_state ''Summarize section 2'' (Some ''report.pdf'') 1000 150 ''m1'' 4 False)
           CheckCache w1 st1"
    by (rule reaches.step [OF reaches.start _ a b]) simp
  have n: "CheckCache \<noteq> END" by simp
  from query_returns_result_or_raises
         [of corrupt_world "''Summarize section 2''" "Some ''report.pdf''" 1000 150 "''m1''" 4
             False _ _ CheckCache w1 st1 JSONDecodeError w2] r n c
  have q: "query corrupt_world ''Summarize section 2'' (Some ''report.pdf'') 1000 150 ''m1'' 4 False
             = (Inl JSONDecodeError, w2)" by blast
  from h h2 r n c q show ?thesis by blast
qed

section \<open>The weather handler\<close>




end
